theory Spec2Isabelle
  imports Complex_Main "HOL-Library.Multiset" "HOL-Library.Char_ord" "HOL-Library.List_Lexorder"
    "HOL-Library.Signed_Division" "HOL-Library.Stream"
begin

section \<open>Numbers and vectors\<close>

text \<open>
  The renderer computes with \<^verbatim>\<open>float\<close> (rasterizer, model store, tile timing) and
  \<^verbatim>\<open>double\<close> (ray tracer). A finite value of either type is embedded as the
  \<^typ>\<open>real\<close> number it denotes; the infinities and NaN are not values of the model.
  The one special value the source passes around on purpose, the upper bound
  \<^verbatim>\<open>rt_infinity\<close> of a ray interval, has its own constructor below.
  C++ \<^verbatim>\<open>int\<close> is embedded as \<^typ>\<open>int\<close> (no overflow occurs at the sizes involved).

  The \<^verbatim>\<open>float\<close> arithmetic of the model store (the vertex operators \<^verbatim>\<open>+\<close>,
  \<^verbatim>\<open>-\<close> and \<^verbatim>\<open>*\<close> by a scalar) and of the shadow test and the colour formula of the
  fragment shader is embedded with its rounding: an operation delivers \<open>fl\<close> of the exact
  result, the nearest value of the IEEE single-precision format, a tie going to the even
  significand (24 significant bits, smallest spacing \<open>2 powi - 149\<close>). Each operation
  rounds once, to single precision (no wider intermediate format, no fused
  multiply-add). A result of magnitude \<open>2 ^ 128\<close> or more is an infinity in the source
  and not in the model: \<open>is_float\<close> holds of the reals that are finite \<^verbatim>\<open>float\<close>
  values. The timing arithmetic of the tile scheduler and the \<^verbatim>\<open>double\<close> arithmetic of
  the ray tracer are embedded without rounding.
\<close>

definition round_even :: "real \<Rightarrow> int" where
  "round_even q =
     (let n = \<lfloor>q\<rfloor>; d = q - of_int n
      in if d < 1 / 2 then n else if d > 1 / 2 then n + 1 else if even n then n else n + 1)"

text \<open>
  The spacing of the format at \<open>a\<close> is \<open>2 powi ulp_exponent a\<close>: 23 binary places below
  the binade of \<open>\<bar>a\<bar>\<close>, which is searched upwards from the smallest exponent of a
  normal number, \<open>- 126\<close> (where the subnormal numbers lie too), to the largest, 127.
\<close>

fun binade_from :: "nat \<Rightarrow> real \<Rightarrow> int \<Rightarrow> int" where
  "binade_from 0 a e = e"
| "binade_from (Suc n) a e = (if a < 2 powi (e + 1) then e else binade_from n a (e + 1))"

definition ulp_exponent :: "real \<Rightarrow> int" where
  "ulp_exponent a = binade_from 253 \<bar>a\<bar> (- 126) - 23"

definition fl :: "real \<Rightarrow> real" where
  "fl a = (if a = 0 then 0
           else of_int (round_even (a / 2 powi ulp_exponent a)) * 2 powi ulp_exponent a)"

definition is_float :: "real \<Rightarrow> bool" where
  "is_float a = (fl a = a \<and> \<bar>a\<bar> < 2 ^ 128)"

definition fadd :: "real \<Rightarrow> real \<Rightarrow> real" where
  "fadd a b = fl (a + b)"

definition fsub :: "real \<Rightarrow> real \<Rightarrow> real" where
  "fsub a b = fl (a - b)"

definition fmul :: "real \<Rightarrow> real \<Rightarrow> real" where
  "fmul a b = fl (a * b)"

text \<open>
  \<^verbatim>\<open>Vec3f\<close> with the three operators the model store uses, each of them one
  \<^verbatim>\<open>float\<close> operation on every coordinate.
\<close>

datatype Vec3f = Vec3f (x: real) (y: real) (z: real)

definition vadd :: "Vec3f \<Rightarrow> Vec3f \<Rightarrow> Vec3f" where
  "vadd a b = Vec3f (fadd (x a) (x b)) (fadd (y a) (y b)) (fadd (z a) (z b))"

definition vsub :: "Vec3f \<Rightarrow> Vec3f \<Rightarrow> Vec3f" where
  "vsub a b = Vec3f (fsub (x a) (x b)) (fsub (y a) (y b)) (fsub (z a) (z b))"

definition vscale :: "Vec3f \<Rightarrow> real \<Rightarrow> Vec3f" where
  "vscale a f = Vec3f (fmul (x a) f) (fmul (y a) f) (fmul (z a) f)"

section \<open>Model: vertex store and blend shapes (model.cpp)\<close>

text \<open>
  \<^verbatim>\<open>std::map<std::string, T>\<close> is an association list kept in ascending key order without
  repeated keys, so that iterating the list visits the entries as the C++ iterator does.
\<close>

type_synonym 'v strmap = "(string \<times> 'v) list"

fun map_find :: "'v strmap \<Rightarrow> string \<Rightarrow> 'v option" where
  "map_find [] k = None"
| "map_find ((k', v) # m) k = (if k = k' then Some v else map_find m k)"

fun map_put :: "string \<Rightarrow> 'v \<Rightarrow> 'v strmap \<Rightarrow> 'v strmap" where
  "map_put k v [] = [(k, v)]"
| "map_put k v ((k', v') # m) =
     (if k = k' then (k, v) # m
      else if k < k' then (k, v) # (k', v') # m
      else (k', v') # map_put k v m)"

text \<open>The fields \<^verbatim>\<open>verts_\<close>, \<^verbatim>\<open>originalVerts_\<close> and \<^verbatim>\<open>hasBackup_\<close> are written without
  their trailing underscore.\<close>

record Model =
  verts :: "Vec3f list"
  originalVerts :: "Vec3f list"
  hasBackup :: bool
  blendShapes :: "Vec3f list strmap"
  blendWeights :: "real strmap"

text \<open>
  An element access of a \<^verbatim>\<open>std::vector\<close> outside its size is undefined behaviour.
  The checked accessors return \<open>None\<close> there, and every function that indexes a vector
  returns an option: \<open>None\<close> means that the source performed an out-of-bounds access.
\<close>

definition vec_get :: "'a list \<Rightarrow> nat \<Rightarrow> 'a option" where
  "vec_get xs i = (if i < length xs then Some (xs ! i) else None)"

definition vec_set :: "'a list \<Rightarrow> nat \<Rightarrow> 'a \<Rightarrow> 'a list option" where
  "vec_set xs i v = (if i < length xs then Some (xs[i := v]) else None)"

text \<open>
  \<^verbatim>\<open>if (i >= 0 && i < verts_.size()) verts_[i] = newPos;\<close>
  The second comparison is made in \<^verbatim>\<open>size_t\<close>; it is reached only for \<open>i \<ge> 0\<close>, where
  the conversion keeps the value.
\<close>

definition setVertex :: "int \<Rightarrow> Vec3f \<Rightarrow> Model \<Rightarrow> Model option" where
  "setVertex i newPos m =
     (if i \<ge> 0 \<and> nat i < length (verts m)
      then (case vec_set (verts m) (nat i) newPos of
              None \<Rightarrow> None
            | Some vs \<Rightarrow> Some (m\<lparr>verts := vs\<rparr>))
      else Some m)"

definition updateVertex :: "int \<Rightarrow> Vec3f \<Rightarrow> Model \<Rightarrow> Model option" where
  "updateVertex index offset m =
     (if index \<ge> 0 \<and> nat index < length (verts m)
      then (case vec_get (verts m) (nat index) of
              None \<Rightarrow> None
            | Some v \<Rightarrow>
                (case vec_set (verts m) (nat index) (vadd v offset) of
                   None \<Rightarrow> None
                 | Some vs \<Rightarrow> Some (m\<lparr>verts := vs\<rparr>)))
      else Some m)"

definition backupOriginalVertices :: "Model \<Rightarrow> Model" where
  "backupOriginalVertices m = m\<lparr>originalVerts := verts m, hasBackup := True\<rparr>"

definition addBlendShape :: "string \<Rightarrow> Vec3f list \<Rightarrow> Model \<Rightarrow> Model" where
  "addBlendShape name targetVertices m =
     (if length targetVertices \<noteq> length (verts m) then m
      else m\<lparr>blendShapes := map_put name targetVertices (blendShapes m),
             blendWeights := map_put name 0 (blendWeights m)\<rparr>)"

definition setBlendWeight :: "string \<Rightarrow> real \<Rightarrow> Model \<Rightarrow> Model" where
  "setBlendWeight shapeName weight m =
     (if map_find (blendShapes m) shapeName \<noteq> None
      then m\<lparr>blendWeights := map_put shapeName (max 0 (min 1 weight)) (blendWeights m)\<rparr>
      else m)"

text \<open>
  The inner loop of \<^verbatim>\<open>applyBlendShapes\<close>, for one shape:
  \<^verbatim>\<open>for (i = 0; i < verts_.size(); i++) verts_[i] = verts_[i] + (targetVerts[i] - originalVerts_[i]) * weight;\<close>
  The argument \<open>i\<close> is the loop counter and \<open>n - i\<close> iterations remain.
\<close>

function blend_loop :: "Vec3f list \<Rightarrow> Vec3f list \<Rightarrow> real \<Rightarrow> nat \<Rightarrow> Vec3f list \<Rightarrow> Vec3f list option" where
  "blend_loop targetVerts orig weight i vs =
     (if i < length vs
      then (case (vec_get targetVerts i, vec_get orig i) of
              (Some t, Some oldp) \<Rightarrow>
                blend_loop targetVerts orig weight (Suc i)
                  (vs[i := vadd (vs ! i) (vscale (vsub t oldp) weight)])
            | _ \<Rightarrow> None)
      else Some vs)"
  by pat_completeness auto
termination
  by (relation "measure (\<lambda>(t, orig, w, i, vs). length vs - i)") auto

text \<open>
  \<^verbatim>\<open>blendWeights[name]\<close> is \<^verbatim>\<open>operator[]\<close>: a missing key is inserted with value 0.
\<close>

definition weight_lookup :: "real strmap \<Rightarrow> string \<Rightarrow> real \<times> real strmap" where
  "weight_lookup ws name =
     (case map_find ws name of
        Some w \<Rightarrow> (w, ws)
      | None \<Rightarrow> (0, map_put name 0 ws))"

fun apply_shapes :: "Vec3f list strmap \<Rightarrow> Model \<Rightarrow> Model option" where
  "apply_shapes [] m = Some m"
| "apply_shapes ((name, targetVerts) # rest) m =
     (case weight_lookup (blendWeights m) name of
        (weight, ws) \<Rightarrow>
          (if weight > 0
           then (case blend_loop targetVerts (originalVerts m) weight 0 (verts m) of
                   None \<Rightarrow> None
                 | Some vs \<Rightarrow> apply_shapes rest (m\<lparr>verts := vs, blendWeights := ws\<rparr>))
           else apply_shapes rest (m\<lparr>blendWeights := ws\<rparr>)))"

definition applyBlendShapes :: "Model \<Rightarrow> Model option" where
  "applyBlendShapes m =
     (let m1 = (if \<not> hasBackup m then backupOriginalVertices m else m);
          m2 = m1\<lparr>verts := originalVerts m1\<rparr>
      in apply_shapes (blendShapes m2) m2)"

definition clearAllBlendWeights :: "Model \<Rightarrow> Model option" where
  "clearAllBlendWeights m =
     applyBlendShapes (m\<lparr>blendWeights := map (\<lambda>(k, w). (k, 0)) (blendWeights m)\<rparr>)"

text \<open>The weights stored in a model all lie in the closed unit interval.\<close>

definition weights_in_unit :: "Model \<Rightarrow> bool" where
  "weights_in_unit m = list_all (\<lambda>(k, w). 0 \<le> w \<and> w \<le> 1) (blendWeights m)"

text \<open>The value that \<^verbatim>\<open>blendWeights[name]\<close> reads: the stored weight, 0 for a missing key.\<close>

definition wt :: "real strmap \<Rightarrow> string \<Rightarrow> real" where
  "wt ws k = fst (weight_lookup ws k)"

text \<open>A model as the constructor leaves it after loading the vertices \<open>vs\<close>.\<close>

definition loaded_model :: "Vec3f list \<Rightarrow> Model" where
  "loaded_model vs =
     backupOriginalVertices
       \<lparr>verts = vs, originalVerts = [], hasBackup = False, blendShapes = [], blendWeights = []\<rparr>"

text \<open>
  A target position whose offset from the original position is computed without rounding:
  the coordinates of the target are \<^verbatim>\<open>float\<close> values and so are the exact differences.
\<close>

definition exact_offset :: "Vec3f \<Rightarrow> Vec3f \<Rightarrow> bool" where
  "exact_offset t p =
     (is_float (x t) \<and> is_float (x t - x p) \<and> is_float (y t) \<and> is_float (y t - y p)
      \<and> is_float (z t) \<and> is_float (z t - z p))"

text \<open>
  The vertex that the inner loop stores for one shape applied at weight 1 to an original
  vertex \<open>p\<close>: \<^verbatim>\<open>p + (t - p) * 1.0f\<close>, three roundings on every coordinate.
\<close>

definition blend_full :: "Vec3f \<Rightarrow> Vec3f \<Rightarrow> Vec3f" where
  "blend_full p t = vadd p (vscale (vsub t p) 1)"


section \<open>Scene graph (SceneNode.cpp, Scene.cpp)\<close>

text \<open>
  A \<^verbatim>\<open>SceneNode\<close> owns its children, so the graph is a tree. A node carries its own
  address, which stands for the pointer to it: \<^verbatim>\<open>SceneNode *\<close> values (the parent
  back-reference, the scene's selected node, the results of the find functions) are
  compared by address, and \<^verbatim>\<open>nullptr\<close> is \<open>None\<close>. The transforms and the model pointer
  play no part in the hierarchy operations and are left out.
\<close>

datatype NodeType = EMPTY | MESH | LIGHT | CAMERA

datatype SceneNode =
  SceneNode (addr: nat) (name: string) (visible: bool) (selected: bool)
            (parent: "nat option") (children: "SceneNode list") (nodeType: NodeType)

text \<open>\<^verbatim>\<open>std::find_if\<close> over the children, by name.\<close>

fun find_child :: "SceneNode list \<Rightarrow> string \<Rightarrow> SceneNode option" where
  "find_child [] childName = None"
| "find_child (c # cs) childName = (if name c = childName then Some c else find_child cs childName)"

text \<open>
  \<^verbatim>\<open>findDescendant\<close>: the first loop checks the direct children, the second loop
  (\<open>search_children\<close>) searches below each child in turn and stops at the first result.
\<close>

fun findDescendant :: "SceneNode \<Rightarrow> string \<Rightarrow> SceneNode option"
  and search_children :: "SceneNode list \<Rightarrow> string \<Rightarrow> SceneNode option" where
  "findDescendant (SceneNode a n v sel p cs ty) nodeName =
     (case find_child cs nodeName of
        Some c \<Rightarrow> Some c
      | None \<Rightarrow> search_children cs nodeName)"
| "search_children [] nodeName = None"
| "search_children (c # cs) nodeName =
     (case findDescendant c nodeName of
        Some found \<Rightarrow> Some found
      | None \<Rightarrow> search_children cs nodeName)"

text \<open>
  \<^verbatim>\<open>removeChild\<close> erases the first direct child of that name from the child list; the
  caller owns the detached node.
\<close>

fun erase_child :: "SceneNode list \<Rightarrow> string \<Rightarrow> SceneNode list" where
  "erase_child [] childName = []"
| "erase_child (c # cs) childName = (if name c = childName then cs else c # erase_child cs childName)"

definition removeChild :: "string \<Rightarrow> SceneNode \<Rightarrow> SceneNode" where
  "removeChild childName node =
     SceneNode (addr node) (name node) (visible node) (selected node) (parent node)
               (erase_child (children node) childName) (nodeType node)"

text \<open>
  Following a pointer: \<open>at_node a f node\<close> applies \<open>f\<close> to the node with address \<open>a\<close>
  in the tree below \<open>node\<close> (the first one in pre-order; the addresses of live nodes
  differ). The result is \<open>None\<close> when no node of the tree has that address.
\<close>

fun at_node :: "nat \<Rightarrow> (SceneNode \<Rightarrow> SceneNode) \<Rightarrow> SceneNode \<Rightarrow> SceneNode option"
  and at_nodes :: "nat \<Rightarrow> (SceneNode \<Rightarrow> SceneNode) \<Rightarrow> SceneNode list \<Rightarrow> SceneNode list option" where
  "at_node a f (SceneNode b n v sel p cs ty) =
     (if a = b then Some (f (SceneNode b n v sel p cs ty))
      else (case at_nodes a f cs of
              None \<Rightarrow> None
            | Some cs' \<Rightarrow> Some (SceneNode b n v sel p cs' ty)))"
| "at_nodes a f [] = None"
| "at_nodes a f (c # cs) =
     (case at_node a f c of
        Some c' \<Rightarrow> Some (c' # cs)
      | None \<Rightarrow> (case at_nodes a f cs of
                   None \<Rightarrow> None
                 | Some cs' \<Rightarrow> Some (c # cs')))"

record Scene =
  rootNode :: SceneNode
  selectedNode :: "nat option"
  nodeCounter :: int

text \<open>The scene as \<^verbatim>\<open>Scene::Scene()\<close> builds it; \<open>a\<close> is the address of the new root node.\<close>

definition new_Scene :: "nat \<Rightarrow> Scene" where
  "new_Scene a =
     \<lparr>rootNode = SceneNode a ''Root'' True False None [] EMPTY, selectedNode = None, nodeCounter = 0\<rparr>"

definition addChild :: "SceneNode \<Rightarrow> SceneNode \<Rightarrow> SceneNode" where
  "addChild child node =
     SceneNode (addr node) (name node) (visible node) (selected node) (parent node)
       (children node @
          [SceneNode (addr child) (name child) (visible child) (selected child) (Some (addr node))
                     (children child) (nodeType child)])
       (nodeType node)"

definition findNode :: "Scene \<Rightarrow> string \<Rightarrow> SceneNode option" where
  "findNode s nodeName =
     (if name (rootNode s) = nodeName then Some (rootNode s)
      else findDescendant (rootNode s) nodeName)"

text \<open>
  \<^verbatim>\<open>deleteNode\<close> returns the boolean and the scene. On success the node found is taken out
  of its parent's child list and destroyed together with its subtree. A parent pointer is
  set by \<^verbatim>\<open>addChild\<close> to the owner, so it points into the tree; were it dangling, the
  call \<^verbatim>\<open>parent->removeChild\<close> would be undefined, and the tree is left as it is here.
\<close>

definition deleteNode :: "string \<Rightarrow> Scene \<Rightarrow> bool \<times> Scene" where
  "deleteNode nodeName s =
     (if nodeName = ''Root'' then (False, s)
      else (case findNode s nodeName of
              None \<Rightarrow> (False, s)
            | Some node \<Rightarrow>
                (case parent node of
                   None \<Rightarrow> (False, s)
                 | Some pa \<Rightarrow>
                     (True,
                      s\<lparr>selectedNode :=
                           (if selectedNode s = Some (addr node) then None else selectedNode s),
                        rootNode :=
                           (case at_node pa (removeChild nodeName) (rootNode s) of
                              Some r \<Rightarrow> r
                            | None \<Rightarrow> rootNode s)\<rparr>))))"

text \<open>A sequence of \<^verbatim>\<open>deleteNode\<close> calls, the return values dropped.\<close>

definition deleteNodes :: "string list \<Rightarrow> Scene \<Rightarrow> Scene" where
  "deleteNodes names s = fold (\<lambda>nodeName s'. snd (deleteNode nodeName s')) names s"

text \<open>\<^verbatim>\<open>createEmptyNode\<close> with a name that is already unique; \<open>a\<close> is the new node's address.\<close>

definition createEmptyNode :: "nat \<Rightarrow> string \<Rightarrow> Scene \<Rightarrow> Scene" where
  "createEmptyNode a finalName s =
     s\<lparr>rootNode := addChild (SceneNode a finalName True False None [] EMPTY) (rootNode s)\<rparr>"


section \<open>Real-time tile scheduler (raytracing.cpp)\<close>

text \<open>
  \<^verbatim>\<open>TGAColor\<close> and \<^verbatim>\<open>TGAImage\<close> are declared in tgaimage.h, which is not among the
  sources. A colour is its three channels as the constructor \<^verbatim>\<open>TGAColor(R, G, B)\<close>
  receives them. An image is its size and its pixels; a pixel that has not been set since
  the last \<^verbatim>\<open>clear()\<close> is \<open>None\<close> (its bytes are zero), so that the pixels written
  can be told from the others. \<^verbatim>\<open>set\<close> ignores coordinates outside the image.
\<close>

datatype TGAColor = TGAColor int int int

record TGAImage =
  img_width :: int
  img_height :: int
  pixels :: "int \<times> int \<rightharpoonup> TGAColor"

definition new_image :: "int \<Rightarrow> int \<Rightarrow> TGAImage" where
  "new_image w h = \<lparr>img_width = w, img_height = h, pixels = Map.empty\<rparr>"

definition image_set :: "int \<Rightarrow> int \<Rightarrow> TGAColor \<Rightarrow> TGAImage \<Rightarrow> TGAImage" where
  "image_set px py c img =
     (if px < 0 \<or> py < 0 \<or> px \<ge> img_width img \<or> py \<ge> img_height img then img
      else img\<lparr>pixels := (pixels img)((px, py) \<mapsto> c)\<rparr>)"

definition image_clear :: "TGAImage \<Rightarrow> TGAImage" where
  "image_clear img = img\<lparr>pixels := Map.empty\<rparr>"

text \<open>
  The fields of \<^verbatim>\<open>RealtimeRayTracer\<close> that the scheduler reads or writes. Of the camera
  \<^verbatim>\<open>rt_cam\<close> these are \<^verbatim>\<open>samples_per_pixel\<close> and \<^verbatim>\<open>max_depth\<close>. Integer division is
  the truncating division of C++ (\<open>sdiv\<close>).
\<close>

record RealtimeRayTracer =
  rt_width :: int
  rt_height :: int
  tile_size :: int
  current_tile_x :: int
  current_tile_y :: int
  total_tiles_x :: int
  total_tiles_y :: int
  is_active :: bool
  rt_framebuffer :: TGAImage
  progress_overlay :: TGAImage
  world_needs_update :: bool
  samples_per_pixel :: int
  max_depth :: int
  quality_level :: int
  blend_strength :: real
  show_progress_overlay :: bool
  adaptive_quality :: bool
  average_frame_time :: real
  performance_samples :: int
  show_tile_boundaries :: bool

definition update_quality_settings :: "RealtimeRayTracer \<Rightarrow> RealtimeRayTracer" where
  "update_quality_settings s =
     (let s1 =
        (if quality_level s = 1 then s\<lparr>samples_per_pixel := 1, max_depth := 2, tile_size := 32\<rparr>
         else if quality_level s = 2 then s\<lparr>samples_per_pixel := 1, max_depth := 3, tile_size := 16\<rparr>
         else if quality_level s = 3 then s\<lparr>samples_per_pixel := 2, max_depth := 4, tile_size := 8\<rparr>
         else if quality_level s = 4 then s\<lparr>samples_per_pixel := 4, max_depth := 6, tile_size := 8\<rparr>
         else s)
      in s1\<lparr>total_tiles_x := (rt_width s1 + tile_size s1 - 1) sdiv tile_size s1,
             total_tiles_y := (rt_height s1 + tile_size s1 - 1) sdiv tile_size s1\<rparr>)"

definition reset_tiles :: "RealtimeRayTracer \<Rightarrow> RealtimeRayTracer" where
  "reset_tiles s =
     (let s1 = s\<lparr>current_tile_x := 0, current_tile_y := 0,
                  rt_framebuffer := image_clear (rt_framebuffer s)\<rparr>
      in if show_progress_overlay s1
         then s1\<lparr>progress_overlay := image_clear (progress_overlay s1)\<rparr>
         else s1)"

definition new_RealtimeRayTracer :: "int \<Rightarrow> int \<Rightarrow> RealtimeRayTracer" where
  "new_RealtimeRayTracer render_width render_height =
     update_quality_settings
       \<lparr>rt_width = render_width sdiv 2, rt_height = render_height sdiv 2,
        tile_size = 16,
        current_tile_x = 0, current_tile_y = 0,
        total_tiles_x = (render_width sdiv 2 + 16 - 1) sdiv 16,
        total_tiles_y = (render_height sdiv 2 + 16 - 1) sdiv 16,
        is_active = False,
        rt_framebuffer = new_image (render_width sdiv 2) (render_height sdiv 2),
        progress_overlay = new_image render_width render_height,
        world_needs_update = True,
        samples_per_pixel = 1, max_depth = 3,
        quality_level = 2,
        blend_strength = 7 / 10,
        show_progress_overlay = True,
        adaptive_quality = False,
        average_frame_time = 1667 / 100,
        performance_samples = 0,
        show_tile_boundaries = False\<rparr>"

definition toggle :: "RealtimeRayTracer \<Rightarrow> RealtimeRayTracer" where
  "toggle s =
     (let s1 = s\<lparr>is_active := \<not> is_active s\<rparr>
      in if is_active s1 then reset_tiles s1 else s1)"

definition toggle_adaptive_quality :: "RealtimeRayTracer \<Rightarrow> RealtimeRayTracer" where
  "toggle_adaptive_quality s = s\<lparr>adaptive_quality := \<not> adaptive_quality s\<rparr>"

definition increase_quality :: "RealtimeRayTracer \<Rightarrow> RealtimeRayTracer" where
  "increase_quality s =
     (if quality_level s < 4
      then reset_tiles (update_quality_settings (s\<lparr>quality_level := quality_level s + 1\<rparr>))
      else s)"

definition decrease_quality :: "RealtimeRayTracer \<Rightarrow> RealtimeRayTracer" where
  "decrease_quality s =
     (if quality_level s > 1
      then reset_tiles (update_quality_settings (s\<lparr>quality_level := quality_level s - 1\<rparr>))
      else s)"

text \<open>
  \<^verbatim>\<open>ray_trace_tile_enhanced\<close>: the two loops over the pixels of the tile. The colour that
  the sampling loop computes for a pixel depends on the scene, the camera and the random
  number generator; it is the parameter \<open>trace\<close>.
\<close>

definition ray_trace_tile_enhanced ::
  "(int \<Rightarrow> int \<Rightarrow> TGAColor) \<Rightarrow> int \<Rightarrow> int \<Rightarrow> int \<Rightarrow> int \<Rightarrow> RealtimeRayTracer \<Rightarrow> RealtimeRayTracer" where
  "ray_trace_tile_enhanced trace start_x start_y end_x end_y s =
     s\<lparr>rt_framebuffer :=
         fold (\<lambda>py fb. fold (\<lambda>px fb'. image_set px py (trace px py) fb') [start_x..end_x - 1] fb)
              [start_y..end_y - 1] (rt_framebuffer s)\<rparr>"

definition update_progress_overlay :: "int \<Rightarrow> int \<Rightarrow> int \<Rightarrow> int \<Rightarrow> RealtimeRayTracer \<Rightarrow> RealtimeRayTracer" where
  "update_progress_overlay start_x start_y end_x end_y s =
     (let main_width = img_width (progress_overlay s);
          main_height = img_height (progress_overlay s);
          main_start_x = (start_x * main_width) sdiv rt_width s;
          main_start_y = (start_y * main_height) sdiv rt_height s;
          main_end_x = (end_x * main_width) sdiv rt_width s;
          main_end_y = (end_y * main_height) sdiv rt_height s;
          ov1 = fold (\<lambda>py ov. fold (\<lambda>px ov'.
                        if px \<ge> 0 \<and> px < main_width \<and> py \<ge> 0 \<and> py < main_height
                        then image_set px py (TGAColor 0 50 0) ov' else ov')
                      [main_start_x..main_end_x - 1] ov)
                  [main_start_y..main_end_y - 1] (progress_overlay s);
          ov2 = (if show_tile_boundaries s
                 then fold (\<lambda>py ov.
                        (let ova = (if main_start_x \<ge> 0 \<and> main_start_x < main_width
                                    then image_set main_start_x py (TGAColor 100 100 0) ov else ov)
                         in if main_end_x - 1 \<ge> 0 \<and> main_end_x - 1 < main_width
                            then image_set (main_end_x - 1) py (TGAColor 100 100 0) ova else ova))
                        [main_start_y..main_end_y - 1]
                        (fold (\<lambda>px ov.
                           (let ova = (if main_start_y \<ge> 0 \<and> main_start_y < main_height
                                       then image_set px main_start_y (TGAColor 100 100 0) ov else ov)
                            in if main_end_y - 1 \<ge> 0 \<and> main_end_y - 1 < main_height
                               then image_set px (main_end_y - 1) (TGAColor 100 100 0) ova else ova))
                           [main_start_x..main_end_x - 1] ov1)
                 else ov1)
      in s\<lparr>progress_overlay := ov2\<rparr>)"

definition advance_tile :: "RealtimeRayTracer \<Rightarrow> RealtimeRayTracer" where
  "advance_tile s =
     (let s1 = s\<lparr>current_tile_x := current_tile_x s + 1\<rparr>
      in if current_tile_x s1 \<ge> total_tiles_x s1
         then (let s2 = s1\<lparr>current_tile_x := 0, current_tile_y := current_tile_y s1 + 1\<rparr>
               in if current_tile_y s2 \<ge> total_tiles_y s2
                  then s2\<lparr>current_tile_y := 0\<rparr>
                  else s2)
         else s1)"

definition update_performance_stats :: "real \<Rightarrow> RealtimeRayTracer \<Rightarrow> RealtimeRayTracer" where
  "update_performance_stats tile_time s =
     (let n = performance_samples s + 1;
          alpha = 1 / real_of_int (min 60 n)
      in s\<lparr>performance_samples := n,
           average_frame_time := average_frame_time s * (1 - alpha) + tile_time * alpha\<rparr>)"

definition target_tile_time :: real where
  "target_tile_time = 2"

definition adjust_quality_based_on_performance :: "RealtimeRayTracer \<Rightarrow> RealtimeRayTracer" where
  "adjust_quality_based_on_performance s =
     (if average_frame_time s > target_tile_time * 2 \<and> quality_level s > 1
      then decrease_quality s
      else if average_frame_time s < target_tile_time * (1 / 2) \<and> quality_level s < 4
      then increase_quality s
      else s)"

text \<open>
  \<^verbatim>\<open>render_one_tile\<close>. The wall-clock time the call measures for itself is the argument
  \<open>tile_time\<close> (milliseconds).
\<close>

definition render_one_tile ::
  "(int \<Rightarrow> int \<Rightarrow> TGAColor) \<Rightarrow> real \<Rightarrow> RealtimeRayTracer \<Rightarrow> RealtimeRayTracer" where
  "render_one_tile trace tile_time s =
     (if \<not> is_active s then s
      else
        (let s1 =
           (if current_tile_y s < total_tiles_y s
            then
              (let tile_start_x = current_tile_x s * tile_size s;
                   tile_start_y = current_tile_y s * tile_size s;
                   tile_end_x = min (tile_start_x + tile_size s) (rt_width s);
                   tile_end_y = min (tile_start_y + tile_size s) (rt_height s);
                   sa = ray_trace_tile_enhanced trace tile_start_x tile_start_y tile_end_x tile_end_y s;
                   sb = (if show_progress_overlay sa
                         then update_progress_overlay tile_start_x tile_start_y tile_end_x tile_end_y sa
                         else sa)
               in advance_tile sb)
            else s);
           s2 = update_performance_stats tile_time s1
         in if adaptive_quality s2 then adjust_quality_based_on_performance s2 else s2))"

text \<open>Successive calls of \<^verbatim>\<open>render_one_tile\<close>, one measured time per call.\<close>

definition render_tiles ::
  "(int \<Rightarrow> int \<Rightarrow> TGAColor) \<Rightarrow> real list \<Rightarrow> RealtimeRayTracer \<Rightarrow> RealtimeRayTracer" where
  "render_tiles trace tile_times s = fold (render_one_tile trace) tile_times s"

text \<open>The pixel of the low-resolution buffer has been written since the buffer was last cleared.\<close>

definition pixel_written :: "RealtimeRayTracer \<Rightarrow> int \<Rightarrow> int \<Rightarrow> bool" where
  "pixel_written s px py = (pixels (rt_framebuffer s) (px, py) \<noteq> None)"

text \<open>
  The block of \<^verbatim>\<open>render_one_tile\<close> guarded by \<^verbatim>\<open>current_tile_y < total_tiles_y\<close>, on its
  own, and the two expressions of the controller: the moving average after one more
  sample \<open>t\<close> (\<open>n\<close> samples so far), and the level that
  \<^verbatim>\<open>adjust_quality_based_on_performance\<close> chooses for an average and a level.
\<close>

definition tile_part :: "(int \<Rightarrow> int \<Rightarrow> TGAColor) \<Rightarrow> RealtimeRayTracer \<Rightarrow> RealtimeRayTracer" where
  "tile_part trace s =
     (if current_tile_y s < total_tiles_y s
      then
        (let tile_start_x = current_tile_x s * tile_size s;
             tile_start_y = current_tile_y s * tile_size s;
             tile_end_x = min (tile_start_x + tile_size s) (rt_width s);
             tile_end_y = min (tile_start_y + tile_size s) (rt_height s);
             sa = ray_trace_tile_enhanced trace tile_start_x tile_start_y tile_end_x tile_end_y s;
             sb = (if show_progress_overlay sa
                   then update_progress_overlay tile_start_x tile_start_y tile_end_x tile_end_y sa
                   else sa)
         in advance_tile sb)
      else s)"

definition next_average :: "real \<Rightarrow> int \<Rightarrow> real \<Rightarrow> real" where
  "next_average avg n t =
     avg * (1 - 1 / real_of_int (min 60 (n + 1))) + t * (1 / real_of_int (min 60 (n + 1)))"

definition next_level :: "real \<Rightarrow> int \<Rightarrow> int" where
  "next_level avg q = (if avg > 4 \<and> q > 1 then q - 1 else if avg < 1 \<and> q < 4 then q + 1 else q)"

text \<open>
  The invariant of the tile grid that the constructor and \<^verbatim>\<open>update_quality_settings\<close>
  establish for a positive resolution: a positive tile size, tile counts that are the
  rounded-up quotients, and a low-resolution buffer of the ray tracer's resolution.
\<close>

definition tile_grid_ok :: "RealtimeRayTracer \<Rightarrow> bool" where
  "tile_grid_ok s =
     (0 < tile_size s \<and> 0 < rt_width s \<and> 0 < rt_height s
      \<and> total_tiles_x s = (rt_width s + tile_size s - 1) sdiv tile_size s
      \<and> total_tiles_y s = (rt_height s + tile_size s - 1) sdiv tile_size s
      \<and> img_width (rt_framebuffer s) = rt_width s
      \<and> img_height (rt_framebuffer s) = rt_height s)"

text \<open>A pixel colour function for examples: every pixel black.\<close>

definition black_trace :: "int \<Rightarrow> int \<Rightarrow> TGAColor" where
  "black_trace px py = TGAColor 0 0 0"


section \<open>Ray tracer core (unified_math.h, ray_tracer_integration.h, bvh.h, bvh.cpp)\<close>

text \<open>
  \<^verbatim>\<open>rt_vec3\<close> with its operators. A quotient by zero is an IEEE infinity or NaN in the
  source and the number 0 here; the results below are read only where no such quotient is
  consumed, or where its value does not matter.
\<close>

datatype rt_vec3 = rt_vec3 (e0: real) (e1: real) (e2: real)

definition rt_neg :: "rt_vec3 \<Rightarrow> rt_vec3" where
  "rt_neg v = rt_vec3 (- e0 v) (- e1 v) (- e2 v)"

definition rt_add :: "rt_vec3 \<Rightarrow> rt_vec3 \<Rightarrow> rt_vec3" where
  "rt_add u v = rt_vec3 (e0 u + e0 v) (e1 u + e1 v) (e2 u + e2 v)"

definition rt_sub :: "rt_vec3 \<Rightarrow> rt_vec3 \<Rightarrow> rt_vec3" where
  "rt_sub u v = rt_vec3 (e0 u - e0 v) (e1 u - e1 v) (e2 u - e2 v)"

definition rt_mul :: "rt_vec3 \<Rightarrow> rt_vec3 \<Rightarrow> rt_vec3" where
  "rt_mul u v = rt_vec3 (e0 u * e0 v) (e1 u * e1 v) (e2 u * e2 v)"

definition rt_scale :: "real \<Rightarrow> rt_vec3 \<Rightarrow> rt_vec3" where
  "rt_scale c v = rt_vec3 (c * e0 v) (c * e1 v) (c * e2 v)"

definition rt_div :: "rt_vec3 \<Rightarrow> real \<Rightarrow> rt_vec3" where
  "rt_div v c = rt_scale (1 / c) v"

definition dot :: "rt_vec3 \<Rightarrow> rt_vec3 \<Rightarrow> real" where
  "dot u v = e0 u * e0 v + e1 u * e1 v + e2 u * e2 v"

definition cross :: "rt_vec3 \<Rightarrow> rt_vec3 \<Rightarrow> rt_vec3" where
  "cross u v = rt_vec3 (e1 u * e2 v - e2 u * e1 v)
                       (e2 u * e0 v - e0 u * e2 v)
                       (e0 u * e1 v - e1 u * e0 v)"

definition length_squared :: "rt_vec3 \<Rightarrow> real" where
  "length_squared v = e0 v * e0 v + e1 v * e1 v + e2 v * e2 v"

definition unit_vector :: "rt_vec3 \<Rightarrow> rt_vec3" where
  "unit_vector v = rt_div v (sqrt (length_squared v))"

definition near_zero :: "rt_vec3 \<Rightarrow> bool" where
  "near_zero v = (\<bar>e0 v\<bar> < 1 / 10 ^ 8 \<and> \<bar>e1 v\<bar> < 1 / 10 ^ 8 \<and> \<bar>e2 v\<bar> < 1 / 10 ^ 8)"

text \<open>\<^verbatim>\<open>operator[]\<close>, for the axis numbers 0, 1, 2.\<close>

definition axis :: "rt_vec3 \<Rightarrow> nat \<Rightarrow> real" where
  "axis v a = (if a = 0 then e0 v else if a = 1 then e1 v else e2 v)"

datatype rt_ray = rt_ray (origin: rt_vec3) (direction: rt_vec3)

definition ray_at :: "rt_ray \<Rightarrow> real \<Rightarrow> rt_vec3" where
  "ray_at r s = rt_add (origin r) (rt_scale s (direction r))"

text \<open>
  The upper end of a ray interval is a \<^verbatim>\<open>double\<close> or \<^verbatim>\<open>rt_infinity\<close>. The two
  operations used on it: the comparison \<^verbatim>\<open>t > t_max\<close> and \<^verbatim>\<open>std::min(t1, t_max)\<close>.
\<close>

datatype t_bound = Finite real | rt_infinity

fun above :: "real \<Rightarrow> t_bound \<Rightarrow> bool" where
  "above s (Finite m) = (s > m)"
| "above s rt_infinity = False"

fun min_bound :: "real \<Rightarrow> t_bound \<Rightarrow> real" where
  "min_bound s (Finite m) = min s m"
| "min_bound s rt_infinity = s"

text \<open>
  The random numbers of \<^verbatim>\<open>std::rand\<close> are a stream of values of \<^verbatim>\<open>random_double()\<close>.
  The three arguments of \<^verbatim>\<open>rt_vec3::random\<close> are drawn from left to right.
  \<^verbatim>\<open>random_unit_vector\<close> loops until a sample is accepted; \<open>None\<close> means that it never
  returns.
\<close>

type_synonym rng = "real stream"

definition random_double :: "rng \<Rightarrow> real \<times> rng" where
  "random_double g = (shd g, stl g)"

definition random_double_in :: "real \<Rightarrow> real \<Rightarrow> rng \<Rightarrow> real \<times> rng" where
  "random_double_in lo hi g = (case random_double g of (u, g') \<Rightarrow> (lo + (hi - lo) * u, g'))"

definition random_vec :: "real \<Rightarrow> real \<Rightarrow> rng \<Rightarrow> rt_vec3 \<times> rng" where
  "random_vec lo hi g =
     (case random_double_in lo hi g of (a, g1) \<Rightarrow>
        (case random_double_in lo hi g1 of (b, g2) \<Rightarrow>
           (case random_double_in lo hi g2 of (c, g3) \<Rightarrow> (rt_vec3 a b c, g3))))"

partial_function (option) random_unit_vector :: "rng \<Rightarrow> (rt_vec3 \<times> rng) option" where
  "random_unit_vector g =
     (case random_vec (- 1) 1 g of (q, g') \<Rightarrow>
        (if 1 / 10 ^ 160 < length_squared q \<and> length_squared q \<le> 1
         then Some (rt_div q (sqrt (length_squared q)), g')
         else random_unit_vector g'))"

text \<open>
  A material is its virtual function \<^verbatim>\<open>scatter\<close>: from the incoming ray, the hit point,
  the normal and the random state to the pair of attenuation and scattered ray when it
  returns true, to nothing when it returns false, each with the random state left behind;
  \<open>None\<close> when the call does not return.
\<close>

type_synonym rt_material =
  "rt_ray \<Rightarrow> rt_vec3 \<Rightarrow> rt_vec3 \<Rightarrow> rng \<Rightarrow> ((rt_vec3 \<times> rt_ray) option \<times> rng) option"

definition rt_lambertian :: "rt_vec3 \<Rightarrow> rt_material" where
  "rt_lambertian albedo r_in hit_point nrm g =
     (case random_unit_vector g of
        None \<Rightarrow> None
      | Some (u, g') \<Rightarrow>
          (let scatter_direction = rt_add nrm u;
               scatter_direction' = (if near_zero scatter_direction then nrm else scatter_direction)
           in Some (Some (albedo, rt_ray hit_point scatter_direction'), g')))"

record rt_hit_record =
  rec_p :: rt_vec3
  rec_normal :: rt_vec3
  rec_mat :: rt_material
  rec_t :: real
  rec_front_face :: bool

definition set_face_normal :: "rt_ray \<Rightarrow> rt_vec3 \<Rightarrow> rt_hit_record \<Rightarrow> rt_hit_record" where
  "set_face_normal r outward_normal hr =
     (let ff = (dot (direction r) outward_normal < 0)
      in hr\<lparr>rec_front_face := ff,
            rec_normal := (if ff then outward_normal else rt_neg outward_normal)\<rparr>)"

text \<open>
  The primitives. A triangle stores its vertices, the two edge vectors and the unit
  normal that its constructor computes (\<open>new_triangle\<close>), and its material; a sphere its
  centre, radius and material. The \<^verbatim>\<open>hit\<close> functions return the filled hit record when
  the source returns true and \<open>None\<close> when it returns false.
\<close>

datatype rt_hittable =
    rt_triangle rt_vec3 rt_vec3 rt_vec3 rt_vec3 rt_vec3 rt_vec3 rt_material
  | rt_sphere rt_vec3 real rt_material

definition new_triangle :: "rt_vec3 \<Rightarrow> rt_vec3 \<Rightarrow> rt_vec3 \<Rightarrow> rt_material \<Rightarrow> rt_hittable" where
  "new_triangle vertex0 vertex1 vertex2 material =
     rt_triangle vertex0 vertex1 vertex2 (rt_sub vertex1 vertex0) (rt_sub vertex2 vertex0)
       (unit_vector (cross (rt_sub vertex1 vertex0) (rt_sub vertex2 vertex0))) material"

definition EPSILON :: real where
  "EPSILON = 1 / 10 ^ 8"

definition empty_record :: "rt_material \<Rightarrow> rt_hit_record" where
  "empty_record m =
     \<lparr>rec_p = rt_vec3 0 0 0, rec_normal = rt_vec3 0 0 0, rec_mat = m, rec_t = 0, rec_front_face = False\<rparr>"

fun hit :: "rt_hittable \<Rightarrow> rt_ray \<Rightarrow> real \<Rightarrow> t_bound \<Rightarrow> rt_hit_record option" where
  "hit (rt_triangle v0 v1 v2 edge1 edge2 nrm m) r t_min t_max =
     (let h = cross (direction r) edge2;
          a = dot edge1 h
      in if a > - EPSILON \<and> a < EPSILON then None
         else
           (let f = 1 / a;
                s = rt_sub (origin r) v0;
                u = f * dot s h
            in if u < 0 \<or> u > 1 then None
               else
                 (let q = cross s edge1;
                      v = f * dot (direction r) q
                  in if v < 0 \<or> u + v > 1 then None
                     else
                       (let tt = f * dot edge2 q
                        in if tt < t_min \<or> above tt t_max then None
                           else Some (set_face_normal r nrm
                                  ((empty_record m)\<lparr>rec_t := tt, rec_p := ray_at r tt\<rparr>))))))"
| "hit (rt_sphere center radius m) r t_min t_max =
     (let oc = rt_sub center (origin r);
          a = length_squared (direction r);
          h = dot (direction r) oc;
          c = length_squared oc - radius * radius;
          discriminant = h * h - a * c
      in if discriminant < 0 then None
         else
           (let sqrtd = sqrt discriminant;
                root1 = (h - sqrtd) / a;
                root2 = (h + sqrtd) / a
            in if root1 < t_min \<or> above root1 t_max
               then (if root2 < t_min \<or> above root2 t_max then None
                     else Some (set_face_normal r (rt_div (rt_sub (ray_at r root2) center) radius)
                            ((empty_record m)\<lparr>rec_t := root2, rec_p := ray_at r root2\<rparr>)))
               else Some (set_face_normal r (rt_div (rt_sub (ray_at r root1) center) radius)
                      ((empty_record m)\<lparr>rec_t := root1, rec_p := ray_at r root1\<rparr>))))"

text \<open>
  \<^verbatim>\<open>rt_hittable_list::hit\<close>: the loop over the objects, with the closest distance so far
  and the record of the last hit (\<open>None\<close> while \<^verbatim>\<open>hit_anything\<close> is false).
\<close>

fun list_hit_loop ::
  "rt_hittable list \<Rightarrow> rt_ray \<Rightarrow> real \<Rightarrow> t_bound \<Rightarrow> rt_hit_record option \<Rightarrow> rt_hit_record option" where
  "list_hit_loop [] r t_min closest_so_far hr = hr"
| "list_hit_loop (obj # objs) r t_min closest_so_far hr =
     (case hit obj r t_min closest_so_far of
        Some temp_rec \<Rightarrow> list_hit_loop objs r t_min (Finite (rec_t temp_rec)) (Some temp_rec)
      | None \<Rightarrow> list_hit_loop objs r t_min closest_so_far hr)"

definition rt_hittable_list_hit ::
  "rt_hittable list \<Rightarrow> rt_ray \<Rightarrow> real \<Rightarrow> t_bound \<Rightarrow> rt_hit_record option" where
  "rt_hittable_list_hit objects r t_min t_max = list_hit_loop objects r t_min t_max None"

text \<open>Axis-aligned bounding boxes. The fields \<^verbatim>\<open>min\<close> and \<^verbatim>\<open>max\<close> are \<open>bmin\<close> and \<open>bmax\<close>.\<close>

record rt_aabb =
  bmin :: rt_vec3
  bmax :: rt_vec3

definition combine :: "rt_aabb \<Rightarrow> rt_aabb \<Rightarrow> rt_aabb" where
  "combine box0 box1 =
     \<lparr>bmin = rt_vec3 (min (e0 (bmin box0)) (e0 (bmin box1)))
                     (min (e1 (bmin box0)) (e1 (bmin box1)))
                     (min (e2 (bmin box0)) (e2 (bmin box1))),
      bmax = rt_vec3 (max (e0 (bmax box0)) (e0 (bmax box1)))
                     (max (e1 (bmax box0)) (e1 (bmax box1)))
                     (max (e2 (bmax box0)) (e2 (bmax box1)))\<rparr>"

text \<open>
  \<^verbatim>\<open>rt_aabb::hit\<close>, the slab test: the loop over the axes still to test, with the
  narrowed interval. The model agrees with the source for a ray whose direction has no
  zero component; for a zero component the source divides by zero and the model does not
  follow it.
\<close>

fun slab_loop :: "rt_aabb \<Rightarrow> rt_ray \<Rightarrow> nat list \<Rightarrow> real \<Rightarrow> t_bound \<Rightarrow> bool" where
  "slab_loop box r [] t_min t_max = True"
| "slab_loop box r (a # as) t_min t_max =
     (let t0 = min ((axis (bmin box) a - axis (origin r) a) / axis (direction r) a)
                   ((axis (bmax box) a - axis (origin r) a) / axis (direction r) a);
          t1 = max ((axis (bmin box) a - axis (origin r) a) / axis (direction r) a)
                   ((axis (bmax box) a - axis (origin r) a) / axis (direction r) a);
          t_min' = max t0 t_min;
          t_max' = min_bound t1 t_max
      in if t_max' \<le> t_min' then False
         else slab_loop box r as t_min' (Finite t_max'))"

definition aabb_hit :: "rt_aabb \<Rightarrow> rt_ray \<Rightarrow> real \<Rightarrow> t_bound \<Rightarrow> bool" where
  "aabb_hit box r t_min t_max = slab_loop box r [0, 1, 2] t_min t_max"

definition longest_axis :: "rt_aabb \<Rightarrow> nat" where
  "longest_axis box =
     (let lx = e0 (bmax box) - e0 (bmin box);
          ly = e1 (bmax box) - e1 (bmin box);
          lz = e2 (bmax box) - e2 (bmin box)
      in if lx > ly \<and> lx > lz then 0 else if ly > lz then 1 else 2)"

text \<open>\<^verbatim>\<open>compute_bounds\<close>: the padding loop widens an axis thinner than \<^verbatim>\<open>1e-6\<close>.\<close>

definition pad_axis :: "real \<Rightarrow> real \<Rightarrow> real \<times> real" where
  "pad_axis lo hi = (if hi - lo < 1 / 10 ^ 6 then (lo - (1 / 10 ^ 6) / 2, hi + (1 / 10 ^ 6) / 2) else (lo, hi))"

fun compute_bounds :: "rt_hittable \<Rightarrow> rt_aabb" where
  "compute_bounds (rt_triangle v0 v1 v2 edge1 edge2 nrm m) =
     (let px = pad_axis (min (e0 v0) (min (e0 v1) (e0 v2))) (max (e0 v0) (max (e0 v1) (e0 v2)));
          py = pad_axis (min (e1 v0) (min (e1 v1) (e1 v2))) (max (e1 v0) (max (e1 v1) (e1 v2)));
          pz = pad_axis (min (e2 v0) (min (e2 v1) (e2 v2))) (max (e2 v0) (max (e2 v1) (e2 v2)))
      in \<lparr>bmin = rt_vec3 (fst px) (fst py) (fst pz), bmax = rt_vec3 (snd px) (snd py) (snd pz)\<rparr>)"
| "compute_bounds (rt_sphere center radius m) =
     \<lparr>bmin = rt_sub center (rt_vec3 radius radius radius),
      bmax = rt_add center (rt_vec3 radius radius radius)\<rparr>"

datatype rt_bvh_node =
  rt_bvh_node (bounds: rt_aabb) (left: "rt_bvh_node option") (right: "rt_bvh_node option")
              (leaf_object: "rt_hittable option")

text \<open>
  \<^verbatim>\<open>build_tree\<close> works on the object vector in place: it returns the node and the
  vector as the sorting has left it. \<^verbatim>\<open>std::sort\<close> on the range \<open>[start, end)\<close> with the
  comparison of the boxes' minima along the axis is a sort by that key; of the orders it
  may leave equal keys in, the stable one is taken. A range that is empty or leaves the
  vector gives \<open>None\<close>: the source then reads outside the vector and recurses without
  end (the constructor of \<^verbatim>\<open>rt_bvh\<close> never asks for one).
\<close>

definition range_bounds :: "rt_hittable list \<Rightarrow> rt_aabb" where
  "range_bounds objs = fold (\<lambda>obj b. combine b (compute_bounds obj)) (tl objs) (compute_bounds (hd objs))"

definition sort_range :: "nat \<Rightarrow> rt_hittable list \<Rightarrow> nat \<Rightarrow> nat \<Rightarrow> rt_hittable list" where
  "sort_range ax objects start end' =
     take start objects
     @ sort_key (\<lambda>obj. axis (bmin (compute_bounds obj)) ax) (take (end' - start) (drop start objects))
     @ drop end' objects"

function build_tree ::
  "rt_hittable list \<Rightarrow> nat \<Rightarrow> nat \<Rightarrow> (rt_bvh_node \<times> rt_hittable list) option" where
  "build_tree objects start end' =
     (if end' \<le> start \<or> length objects < end' then None
      else if end' - start = 1
      then Some (rt_bvh_node (compute_bounds (objects ! start)) None None (Some (objects ! start)),
                 objects)
      else
        (let bnds = range_bounds (take (end' - start) (drop start objects));
             ax = longest_axis bnds;
             sorted_objects = sort_range ax objects start end';
             mid = start + (end' - start) div 2
         in (case build_tree sorted_objects start mid of
               None \<Rightarrow> None
             | Some (l, objects1) \<Rightarrow>
                 (case build_tree objects1 mid end' of
                    None \<Rightarrow> None
                  | Some (r, objects2) \<Rightarrow>
                      Some (rt_bvh_node bnds (Some l) (Some r) None, objects2)))))"
  by pat_completeness auto
termination
  by (relation "measure (\<lambda>(objects, start, end'). end' - start)") auto

declare build_tree.simps [simp del]

text \<open>\<^verbatim>\<open>hit_node\<close> on a node pointer (\<open>None\<close> is the null pointer).\<close>

fun hit_node :: "rt_bvh_node option \<Rightarrow> rt_ray \<Rightarrow> real \<Rightarrow> t_bound \<Rightarrow> rt_hit_record option" where
  "hit_node None r t_min t_max = None"
| "hit_node (Some (rt_bvh_node bnds l rgt lf)) r t_min t_max =
     (if \<not> aabb_hit bnds r t_min t_max then None
      else
        (case lf of
           Some obj \<Rightarrow> hit obj r t_min t_max
         | None \<Rightarrow>
             (case hit_node l r t_min t_max of
                Some temp_rec \<Rightarrow>
                  (case hit_node rgt r t_min (Finite (rec_t temp_rec)) of
                     Some temp_rec2 \<Rightarrow> Some temp_rec2
                   | None \<Rightarrow> Some temp_rec)
              | None \<Rightarrow>
                  (case hit_node rgt r t_min t_max of
                     Some temp_rec2 \<Rightarrow> Some temp_rec2
                   | None \<Rightarrow> None))))"

text \<open>
  \<^verbatim>\<open>rt_bvh\<close>: the constructor (which also returns the reordered object vector of the
  list it was built from) and \<^verbatim>\<open>rt_bvh::hit\<close>.
\<close>

record rt_bvh =
  root :: "rt_bvh_node option"

definition new_rt_bvh :: "rt_hittable list \<Rightarrow> (rt_bvh \<times> rt_hittable list) option" where
  "new_rt_bvh objects =
     (if objects \<noteq> []
      then (case build_tree objects 0 (length objects) of
              None \<Rightarrow> None
            | Some (n, objects') \<Rightarrow> Some (\<lparr>root = Some n\<rparr>, objects'))
      else Some (\<lparr>root = None\<rparr>, objects))"

definition rt_bvh_hit :: "rt_bvh \<Rightarrow> rt_ray \<Rightarrow> real \<Rightarrow> t_bound \<Rightarrow> rt_hit_record option" where
  "rt_bvh_hit bvh r t_min t_max =
     (if root bvh = None then None else hit_node (root bvh) r t_min t_max)"

text \<open>
  \<^verbatim>\<open>RealtimeRayTracer::ray_color\<close>. The argument \<open>bvh_world\<close> is the pointer to the BVH
  (\<open>None\<close> when null). The result is the colour and the random state left behind, \<open>None\<close>
  when a \<^verbatim>\<open>scatter\<close> call does not return.
\<close>

function ray_color :: "rt_bvh option \<Rightarrow> rt_ray \<Rightarrow> int \<Rightarrow> rng \<Rightarrow> (rt_vec3 \<times> rng) option" where
  "ray_color bvh_world r depth g =
     (if depth \<le> 0 then Some (rt_vec3 0 0 0, g)
      else
        (case (case bvh_world of None \<Rightarrow> None | Some bvh \<Rightarrow> rt_bvh_hit bvh r (1 / 1000) rt_infinity) of
           Some hr \<Rightarrow>
             (case rec_mat hr r (rec_p hr) (rec_normal hr) g of
                None \<Rightarrow> None
              | Some (Some (attenuation, scattered), g') \<Rightarrow>
                  (case ray_color bvh_world scattered (depth - 1) g' of
                     None \<Rightarrow> None
                   | Some (c, g'') \<Rightarrow> Some (rt_mul attenuation c, g''))
              | Some (None, g') \<Rightarrow> Some (rt_vec3 0 0 0, g'))
         | None \<Rightarrow> Some (rt_vec3 0 0 0, g)))"
  by pat_completeness auto
termination
  by (relation "measure (\<lambda>(bvh_world, r, depth, g). nat depth)") auto

declare ray_color.simps [simp del]

text \<open>
  Example inputs: the material that the scene converter gives every triangle; a material
  that never scatters; the triangle (0,0,0), (1,0,0), (0,1,0); a sphere of radius 0; the
  BVH that \<^verbatim>\<open>build_tree\<close> makes of a single object; three rays and a random stream.
\<close>

definition example_material :: rt_material where
  "example_material = rt_lambertian (rt_vec3 (7 / 10) (3 / 10) (3 / 10))"

definition absorbing_material :: rt_material where
  "absorbing_material r_in hit_point nrm g = Some (None, g)"

definition unit_triangle :: "rt_material \<Rightarrow> rt_hittable" where
  "unit_triangle m = new_triangle (rt_vec3 0 0 0) (rt_vec3 1 0 0) (rt_vec3 0 1 0) m"

definition point_sphere :: rt_hittable where
  "point_sphere = rt_sphere (rt_vec3 1 1 1) 0 example_material"

definition leaf_bvh :: "rt_hittable \<Rightarrow> rt_bvh" where
  "leaf_bvh obj = \<lparr>root = Some (rt_bvh_node (compute_bounds obj) None None (Some obj))\<rparr>"

definition grazing_ray :: rt_ray where
  "grazing_ray = rt_ray (rt_vec3 (- 1) 1 1) (rt_vec3 1 (- 1) (- 1))"

definition inner_ray :: rt_ray where
  "inner_ray = rt_ray (rt_vec3 (- (3 / 4)) (- (3 / 4)) 1) (rt_vec3 1 1 (- 1))"

definition diagonal_ray :: rt_ray where
  "diagonal_ray = rt_ray (rt_vec3 0 0 0) (rt_vec3 1 1 1)"

definition example_rng :: rng where
  "example_rng = 0 ## (1 / 2) ## (1 / 2) ## sconst 0"

section \<open>The shadow-mapping fragment shader (shaders.h)\<close>














text \<open>
  The cast \<^verbatim>\<open>(int)\<close> of a float truncates toward zero; its behaviour is undefined
  (\<open>None\<close>) when the truncated value is not an \<^verbatim>\<open>int\<close>. \<^verbatim>\<open>pow\<close> is called with a
  base that is at least 0 and with the value of the specular map, a byte, as exponent.
\<close>

definition trunc_int :: "real \<Rightarrow> int" where
  "trunc_int a = (if a \<ge> 0 then \<lfloor>a\<rfloor> else \<lceil>a\<rceil>)"








text \<open>
  One channel of the final colour: \<^verbatim>\<open>std::min<float>(20 + c[i] * shadow * (0.8f * diff +
  0.3f * spec), 255)\<close> stored into a byte. The channel \<^verbatim>\<open>c[i]\<close>, a byte, is converted
  to \<^verbatim>\<open>float\<close> without rounding; the product \<^verbatim>\<open>c[i] * shadow\<close> is formed first. For a
  byte \<^verbatim>\<open>c[i]\<close> and \<open>shadow\<close>, \<open>diff\<close> and \<open>spec\<close> that are not negative the value lies
  between 20 and 255, and the conversion to a byte truncates it.
\<close>

definition shade_channel :: "int \<Rightarrow> real \<Rightarrow> real \<Rightarrow> real \<Rightarrow> int" where
  "shade_channel ch shadow diff spec =
     trunc_int
       (min (fadd 20 (fmul (fmul (real_of_int ch) shadow)
                           (fadd (fmul (fl (8 / 10)) diff) (fmul (fl (3 / 10)) spec))))
            255)"











section \<open>Properties of single-precision rounding\<close>

lemma two_powi_less_imp: "(2::real) powi m < 2 powi n \<Longrightarrow> m < n"
proof (rule ccontr)
  assume a: "(2::real) powi m < 2 powi n" and "\<not> m < n"
  then have "n \<le> m" by simp
  then have "(2::real) powi n \<le> 2 powi m" by (intro power_int_increasing) simp_all
  then show False using a by linarith
qed

lemma binade_from_eq:
  "2 powi e \<le> a \<Longrightarrow> a < 2 powi (e + 1) \<Longrightarrow> lo \<le> e \<Longrightarrow> e - lo \<le> int n \<Longrightarrow>
   binade_from n a lo = e"
proof (induction n arbitrary: lo)
  case 0
  then show ?case by simp
next
  case (Suc n)
  show ?case
  proof (cases "a < 2 powi (lo + 1)")
    case True
    have "(2::real) powi e < 2 powi (lo + 1)" using Suc.prems(1) True by linarith
    then have "e < lo + 1" by (rule two_powi_less_imp)
    then show ?thesis using True Suc.prems(3) by simp
  next
    case False
    have "(2::real) powi (lo + 1) < 2 powi (e + 1)" using Suc.prems(2) False by linarith
    then have "lo + 1 < e + 1" by (rule two_powi_less_imp)
    then have "binade_from n a (lo + 1) = e"
      using Suc.prems by (intro Suc.IH) simp_all
    then show ?thesis using False by simp
  qed
qed

lemma binade_from_low:
  "binade_from n a lo = lo \<or> 2 powi (binade_from n a lo) \<le> a"
proof (induction n arbitrary: lo)
  case 0
  then show ?case by simp
next
  case (Suc n)
  show ?case
  proof (cases "a < 2 powi (lo + 1)")
    case True
    then show ?thesis by simp
  next
    case False
    from Suc.IH[of "lo + 1"] show ?thesis
    proof
      assume "binade_from n a (lo + 1) = lo + 1"
      then show ?thesis using False by simp
    next
      assume "2 powi binade_from n a (lo + 1) \<le> a"
      then show ?thesis using False by simp
    qed
  qed
qed

text \<open>
  The rounding of a number whose binade is known: for \<open>2 powi e \<le> \<bar>a\<bar> < 2 powi (e + 1)\<close>
  in the normal range, the spacing of the format is \<open>2 powi (e - 23)\<close>.
\<close>

lemma fl_eval:
  assumes "2 powi e \<le> \<bar>a\<bar>" "\<bar>a\<bar> < 2 powi (e + 1)" "- 126 \<le> e" "e \<le> 127"
  shows "fl a = of_int (round_even (a / 2 powi (e - 23))) * 2 powi (e - 23)"
proof -
  have "(0::real) < 2 powi e" by simp
  then have "0 < \<bar>a\<bar>" using assms(1) by linarith
  then have "a \<noteq> 0" by simp
  moreover have "ulp_exponent a = e - 23"
    using binade_from_eq[OF assms(1,2), of "- 126" 253] assms(3,4) by (simp add: ulp_exponent_def)
  ultimately show ?thesis by (simp add: fl_def)
qed

lemma round_even_of_int: "round_even (of_int n) = n"
  by (simp add: round_even_def)

lemma fl_zero: "fl 0 = 0"
  by (simp add: fl_def)

text \<open>A number with a significand of at most 24 bits on the grid of the format is not rounded.\<close>

lemma fl_dyadic:
  assumes "\<bar>m\<bar> < 2 ^ 24" "- 149 \<le> k"
  shows "fl (of_int m * 2 powi k) = of_int m * 2 powi k"
proof (cases "m = 0")
  case True
  then show ?thesis by (simp add: fl_def)
next
  case False
  let ?a = "real_of_int m * 2 powi k"
  have a0: "?a \<noteq> 0" using False by simp
  have "\<bar>?a\<bar> = real_of_int \<bar>m\<bar> * 2 powi k" by (simp add: abs_mult)
  also have "\<dots> < 2 ^ 24 * 2 powi k"
  proof -
    have "real_of_int \<bar>m\<bar> < real_of_int (2 ^ 24)"
      using assms(1) by (simp only: of_int_less_iff)
    then show ?thesis by simp
  qed
  also have "\<dots> = 2 powi (24 + k)" by (simp add: power_int_add)
  finally have lt: "\<bar>?a\<bar> < 2 powi (24 + k)" .
  define b where "b = binade_from 253 \<bar>?a\<bar> (- 126)"
  have "b \<le> 23 + k"
  proof -
    from binade_from_low[of 253 "\<bar>?a\<bar>" "- 126"]
    have "b = - 126 \<or> 2 powi b \<le> \<bar>?a\<bar>" by (simp only: b_def)
    then show ?thesis
    proof
      assume "b = - 126"
      then show ?thesis using assms(2) by simp
    next
      assume "2 powi b \<le> \<bar>?a\<bar>"
      then have "(2::real) powi b < 2 powi (24 + k)" using lt by linarith
      then have "b < 24 + k" by (rule two_powi_less_imp)
      then show ?thesis by simp
    qed
  qed
  then have u: "ulp_exponent ?a \<le> k" by (simp add: ulp_exponent_def b_def)
  define u where "u = ulp_exponent ?a"
  have uk: "u \<le> k" using u by (simp add: u_def)
  have "?a / 2 powi u = real_of_int m * 2 powi (k - u)"
    by (simp add: power_int_diff)
  also have "\<dots> = real_of_int m * 2 ^ nat (k - u)"
    using uk by (simp add: power_int_def)
  also have "\<dots> = real_of_int (m * 2 ^ nat (k - u))" by simp
  finally have q: "?a / 2 powi u = real_of_int (m * 2 ^ nat (k - u))" .
  have "fl ?a = real_of_int (round_even (?a / 2 powi u)) * 2 powi u"
    using a0 by (simp add: fl_def u_def)
  also have "\<dots> = (?a / 2 powi u) * 2 powi u"
    unfolding q round_even_of_int ..
  also have "\<dots> = ?a" by simp
  finally show ?thesis .
qed

lemma is_float_dyadic:
  assumes "\<bar>m\<bar> < 2 ^ 24" "- 149 \<le> k" "k \<le> 104"
  shows "is_float (of_int m * 2 powi k)"
proof -
  have "real_of_int \<bar>m\<bar> < real_of_int (2 ^ 24)"
    using assms(1) by (simp only: of_int_less_iff)
  then have m: "real_of_int \<bar>m\<bar> < 2 ^ 24" by simp
  have "(2::real) powi k \<le> 2 powi 104"
    using assms(3) by (intro power_int_increasing) simp_all
  then have k: "(2::real) powi k \<le> 2 ^ 104" by simp
  have "\<bar>real_of_int m * 2 powi k\<bar> = real_of_int \<bar>m\<bar> * 2 powi k" by (simp add: abs_mult)
  also have "\<dots> < 2 ^ 24 * 2 ^ 104"
    using m k by (intro mult_less_le_imp_less) simp_all
  finally have "\<bar>real_of_int m * 2 powi k\<bar> < 2 ^ 128" by simp
  then show ?thesis using fl_dyadic[OF assms(1,2)] by (simp add: is_float_def)
qed

section \<open>Properties of the model store\<close>

lemma map_find_put: "map_find (map_put k v m) k' = (if k' = k then Some v else map_find m k')"
  by (induction m) auto

lemma map_find_mem: "map_find m k = Some v \<Longrightarrow> (k, v) \<in> set m"
  by (induction m) (auto split: if_splits)

lemma map_find_absent: "k \<notin> fst ` set m \<Longrightarrow> map_find m k = None"
  by (induction m) auto

lemma map_find_split:
  "k \<notin> fst ` set pre \<Longrightarrow> map_find (pre @ (k, v) # post) k = Some v"
  by (induction pre) auto

lemma list_all_map_put:
  "list_all P m \<Longrightarrow> P (k, v) \<Longrightarrow> list_all P (map_put k v m)"
  by (induction m) auto

lemma wt_alt: "wt ws k = (case map_find ws k of Some w \<Rightarrow> w | None \<Rightarrow> 0)"
  by (simp add: wt_def weight_lookup_def split: option.splits)

lemma wt_put: "wt (map_put k v ws) j = (if j = k then v else wt ws j)"
  by (simp add: wt_alt map_find_put)

lemma weight_lookup_wt:
  "weight_lookup ws k = (w, ws') \<Longrightarrow> w = wt ws k \<and> (\<forall>j. wt ws' j = wt ws j)"
  by (auto simp: weight_lookup_def wt_alt map_find_put split: option.splits if_splits)

text \<open>The inner loop in closed form, when no read leaves the target and backup vectors.\<close>

lemma blend_loop_closed:
  "i \<le> length vs \<Longrightarrow> length vs \<le> length t \<Longrightarrow> length vs \<le> length orig \<Longrightarrow>
   blend_loop t orig w i vs =
     Some (take i vs @ map (\<lambda>j. vadd (vs ! j) (vscale (vsub (t ! j) (orig ! j)) w)) [i..<length vs])"
proof (induction t orig w i vs rule: blend_loop.induct)
  case (1 t orig w i vs)
  show ?case
  proof (cases "i < length vs")
    case False
    with 1(2) show ?thesis by simp
  next
    case True
    let ?vs' = "vs[i := vadd (vs ! i) (vscale (vsub (t ! i) (orig ! i)) w)]"
    have g: "vec_get t i = Some (t ! i)" "vec_get orig i = Some (orig ! i)"
      using True 1(3,4) by (simp_all add: vec_get_def)
    have ih: "blend_loop t orig w (Suc i) ?vs' =
       Some (take (Suc i) ?vs' @
             map (\<lambda>j. vadd (?vs' ! j) (vscale (vsub (t ! j) (orig ! j)) w)) [Suc i..<length ?vs'])"
      using 1(1)[OF True refl g(1) g(2)] True 1(3,4) g
      by simp
    have a: "take (Suc i) ?vs' = take i vs @ [vadd (vs ! i) (vscale (vsub (t ! i) (orig ! i)) w)]"
      using True by (simp add: take_Suc_conv_app_nth)
    have b: "map (\<lambda>j. vadd (?vs' ! j) (vscale (vsub (t ! j) (orig ! j)) w)) [Suc i..<length ?vs']
           = map (\<lambda>j. vadd (vs ! j) (vscale (vsub (t ! j) (orig ! j)) w)) [Suc i..<length vs]"
      by (rule map_cong) auto
    have c: "[i..<length vs] = i # [Suc i..<length vs]"
      using True by (simp add: upt_conv_Cons)
    show ?thesis
      apply (subst blend_loop.simps)
      using True g ih a b c by simp
  qed
qed

text \<open>Shapes whose weight is not positive are skipped.\<close>

lemma apply_shapes_idle:
  "list_all (\<lambda>(k, t). wt (blendWeights m) k \<le> 0) sh \<Longrightarrow>
   \<exists>m'. apply_shapes sh m = Some m' \<and> verts m' = verts m \<and> originalVerts m' = originalVerts m
        \<and> (\<forall>j. wt (blendWeights m') j = wt (blendWeights m) j)"
proof (induction sh arbitrary: m)
  case Nil
  then show ?case by simp
next
  case (Cons a sh)
  obtain k t where a: "a = (k, t)" by (cases a)
  obtain w ws where l: "weight_lookup (blendWeights m) k = (w, ws)"
    by (cases "weight_lookup (blendWeights m) k")
  from weight_lookup_wt[OF l] have w: "w = wt (blendWeights m) k"
    and ws: "\<forall>j. wt ws j = wt (blendWeights m) j" by auto
  from Cons.prems a w have nw: "\<not> w > 0" by simp
  let ?m1 = "m\<lparr>blendWeights := ws\<rparr>"
  have "list_all (\<lambda>(k, t). wt (blendWeights ?m1) k \<le> 0) sh"
    using Cons.prems ws by (simp add: a)
  from Cons.IH[OF this] obtain m' where
    "apply_shapes sh ?m1 = Some m'" "verts m' = verts ?m1" "originalVerts m' = originalVerts ?m1"
    "\<forall>j. wt (blendWeights m') j = wt (blendWeights ?m1) j" by blast
  then show ?case using a l nw ws by simp
qed

lemma apply_shapes_append:
  "apply_shapes (a @ b) m = (case apply_shapes a m of None \<Rightarrow> None | Some m1 \<Rightarrow> apply_shapes b m1)"
proof (induction a arbitrary: m)
  case Nil
  then show ?case by simp
next
  case (Cons p a)
  obtain k t where p: "p = (k, t)" by (cases p)
  obtain w ws where l: "weight_lookup (blendWeights m) k = (w, ws)"
    by (cases "weight_lookup (blendWeights m) k")
  show ?case using Cons.IH p l by (simp split: option.splits)
qed

lemma apply_shapes_single:
  assumes sh: "sh = pre @ (n, target) # post"
    and pre: "list_all (\<lambda>(k, t). wt (blendWeights m) k \<le> 0) pre"
    and post: "list_all (\<lambda>(k, t). wt (blendWeights m) k \<le> 0) post"
    and len: "length target = length (originalVerts m)" "length (verts m) = length (originalVerts m)"
  shows "\<exists>m'. apply_shapes sh m = Some m' \<and>
          verts m' = (if wt (blendWeights m) n > 0
                      then map (\<lambda>j. vadd (verts m ! j)
                                  (vscale (vsub (target ! j) (originalVerts m ! j)) (wt (blendWeights m) n)))
                               [0..<length (verts m)]
                      else verts m)"
proof -
  from apply_shapes_idle[OF pre] obtain m1 where m1: "apply_shapes pre m = Some m1"
    "verts m1 = verts m" "originalVerts m1 = originalVerts m"
    "\<forall>j. wt (blendWeights m1) j = wt (blendWeights m) j" by blast
  obtain w ws where l: "weight_lookup (blendWeights m1) n = (w, ws)"
    by (cases "weight_lookup (blendWeights m1) n")
  from weight_lookup_wt[OF l] m1(4) have w: "w = wt (blendWeights m) n"
    and ws: "\<forall>j. wt ws j = wt (blendWeights m) j" by auto
  show ?thesis
  proof (cases "w > 0")
    case False
    let ?m2 = "m1\<lparr>blendWeights := ws\<rparr>"
    have "list_all (\<lambda>(k, t). wt (blendWeights ?m2) k \<le> 0) post" using post ws by simp
    from apply_shapes_idle[OF this] obtain m' where
      "apply_shapes post ?m2 = Some m'" "verts m' = verts ?m2" by blast
    then show ?thesis using False m1 l w sh by (simp add: apply_shapes_append)
  next
    case True
    let ?vs = "map (\<lambda>j. vadd (verts m ! j) (vscale (vsub (target ! j) (originalVerts m ! j)) w))
                 [0..<length (verts m)]"
    have bl: "blend_loop target (originalVerts m1) w 0 (verts m1) = Some ?vs"
      using blend_loop_closed[of 0 "verts m1" target "originalVerts m1" w] len m1 by simp
    let ?m2 = "m1\<lparr>verts := ?vs, blendWeights := ws\<rparr>"
    have "list_all (\<lambda>(k, t). wt (blendWeights ?m2) k \<le> 0) post" using post ws by simp
    from apply_shapes_idle[OF this] obtain m' where
      "apply_shapes post ?m2 = Some m'" "verts m' = verts ?m2" by blast
    then show ?thesis using True m1 l w sh bl by (simp add: apply_shapes_append)
  qed
qed

lemma blend_full_exact: "exact_offset t p \<Longrightarrow> blend_full p t = t"
  by (cases t; cases p)
    (simp add: blend_full_def exact_offset_def is_float_def vadd_def vsub_def vscale_def
      fadd_def fsub_def fmul_def)

lemma map2_upt:
  "length xs = length ys \<Longrightarrow> map (\<lambda>j. f (xs ! j) (ys ! j)) [0..<length xs] = map2 f xs ys"
  by (rule nth_equalityI) simp_all

lemma list_all_zero_le:
  "list_all (\<lambda>(k, t). f k = (0::real)) xs \<Longrightarrow> list_all (\<lambda>(k, t). f k \<le> 0) xs"
  by (induction xs) auto

text \<open>One shape at weight \<open>w\<close>, every other shape at weight 0.\<close>

lemma applyBlendShapes_single:
  assumes "hasBackup m"
    and "blendShapes m = pre @ (n, target) # post"
    and "list_all (\<lambda>(k, t). wt (blendWeights m) k = 0) (pre @ post)"
    and "length target = length (originalVerts m)"
  shows "\<exists>m'. applyBlendShapes m = Some m' \<and>
           verts m' = (if wt (blendWeights m) n > 0
                       then map (\<lambda>j. vadd (originalVerts m ! j)
                              (vscale (vsub (target ! j) (originalVerts m ! j)) (wt (blendWeights m) n)))
                            [0..<length (originalVerts m)]
                       else originalVerts m)"
proof -
  let ?m2 = "m\<lparr>verts := originalVerts m\<rparr>"
  have ab: "applyBlendShapes m = apply_shapes (blendShapes m) ?m2"
    using assms(1) by (simp add: applyBlendShapes_def Let_def)
  have pre: "list_all (\<lambda>(k, t). wt (blendWeights ?m2) k \<le> 0) pre"
    using assms(3) by (simp add: list_all_zero_le)
  have post: "list_all (\<lambda>(k, t). wt (blendWeights ?m2) k \<le> 0) post"
    using assms(3) by (simp add: list_all_zero_le)
  from apply_shapes_single[OF assms(2) pre post] assms(4) ab
  show ?thesis by auto
qed

lemma setBlendWeight_in_unit: "weights_in_unit m \<Longrightarrow> weights_in_unit (setBlendWeight k w m)"
  by (auto simp: weights_in_unit_def setBlendWeight_def intro!: list_all_map_put)

lemma addBlendShape_in_unit: "weights_in_unit m \<Longrightarrow> weights_in_unit (addBlendShape k t m)"
  by (auto simp: weights_in_unit_def addBlendShape_def intro!: list_all_map_put)

lemma loaded_model_in_unit: "weights_in_unit (loaded_model vs)"
  by (simp add: weights_in_unit_def loaded_model_def backupOriginalVertices_def)

lemma list_all_keys_mono:
  "list_all (\<lambda>(k, t). P k) xs \<Longrightarrow> (\<And>k. k \<in> fst ` set xs \<Longrightarrow> P k \<Longrightarrow> Q k) \<Longrightarrow>
   list_all (\<lambda>(k, t). Q k) xs"
  by (induction xs) auto

lemma setBlendWeight_others:
  assumes "blendShapes m = pre @ (n, target) # post" and "n \<notin> fst ` set (pre @ post)"
    and "list_all (\<lambda>(k, t). wt (blendWeights m) k = 0) (pre @ post)"
  shows "list_all (\<lambda>(k, t). wt (blendWeights (setBlendWeight n w m)) k = 0) (pre @ post)"
    and "wt (blendWeights (setBlendWeight n w m)) n = max 0 (min 1 w)"
proof -
  have f: "map_find (blendShapes m) n = Some target"
  proof -
    have "n \<notin> fst ` set pre" using assms(2) by auto
    then show ?thesis using assms(1) by (simp add: map_find_split)
  qed
  then have bw: "blendWeights (setBlendWeight n w m) = map_put n (max 0 (min 1 w)) (blendWeights m)"
    by (simp add: setBlendWeight_def)
  show "wt (blendWeights (setBlendWeight n w m)) n = max 0 (min 1 w)"
    by (simp add: bw wt_put)
  have "\<And>k. k \<in> fst ` set (pre @ post) \<Longrightarrow> wt (blendWeights m) k = 0 \<Longrightarrow>
          wt (blendWeights (setBlendWeight n w m)) k = 0"
    using assms(2) by (auto simp: bw wt_put)
  from list_all_keys_mono[OF assms(3) this]
  show "list_all (\<lambda>(k, t). wt (blendWeights (setBlendWeight n w m)) k = 0) (pre @ post)" .
qed

text \<open>
  Claim C5. For a model with backed-up original vertices, a stored shape \<open>n\<close> with as many
  target vertices as the model has, and every other shape at weight 0: applying the
  blend shapes after setting the weight of \<open>n\<close> to 0 makes the vertex array equal to the
  original positions; after setting it to 1 every vertex is the single-precision value of
  \<open>p + (t - p) * 1\<close> for its original position \<open>p\<close> and its target \<open>t\<close>, which is the
  target itself whenever the differences \<open>t - p\<close> are computed without rounding;
  and \<^verbatim>\<open>setBlendWeight\<close> with any shape name and any input value keeps every stored
  weight in the interval from 0 to 1. No out-of-bounds access occurs (the result is
  \<open>Some\<close>).
\<close>

theorem blend_shape_weights:
  assumes "hasBackup m"
    and "blendShapes m = pre @ (n, target) # post"
    and "n \<notin> fst ` set (pre @ post)"
    and "list_all (\<lambda>(k, t). wt (blendWeights m) k = 0) (pre @ post)"
    and "length target = length (originalVerts m)"
    and "weights_in_unit m"
  shows "(\<exists>m'. applyBlendShapes (setBlendWeight n 0 m) = Some m' \<and> verts m' = originalVerts m)
       \<and> (\<exists>m'. applyBlendShapes (setBlendWeight n 1 m) = Some m'
                \<and> verts m' = map2 blend_full (originalVerts m) target
                \<and> (list_all2 exact_offset target (originalVerts m) \<longrightarrow> verts m' = target))
       \<and> weights_in_unit (setBlendWeight k w m)"
proof -
  have frame: "\<And>v. hasBackup (setBlendWeight n v m) = hasBackup m
      \<and> blendShapes (setBlendWeight n v m) = blendShapes m
      \<and> originalVerts (setBlendWeight n v m) = originalVerts m"
    by (simp add: setBlendWeight_def)
  have zero: "\<exists>m'. applyBlendShapes (setBlendWeight n 0 m) = Some m' \<and> verts m' = originalVerts m"
    using applyBlendShapes_single[of "setBlendWeight n 0 m" pre n target post]
      setBlendWeight_others[OF assms(2,3,4), of 0] assms(1,2,5) frame
    by simp
  obtain m' where m': "applyBlendShapes (setBlendWeight n 1 m) = Some m'"
    "verts m' = map (\<lambda>j. vadd (originalVerts m ! j)
                       (vscale (vsub (target ! j) (originalVerts m ! j)) 1))
                    [0..<length (originalVerts m)]"
    using applyBlendShapes_single[of "setBlendWeight n 1 m" pre n target post]
      setBlendWeight_others[OF assms(2,3,4), of 1] assms(1,2,5) frame
    by auto
  have "verts m' = map (\<lambda>j. blend_full (originalVerts m ! j) (target ! j))
                     [0..<length (originalVerts m)]"
    using m'(2) by (simp add: blend_full_def)
  then have full: "verts m' = map2 blend_full (originalVerts m) target"
    using map2_upt[of "originalVerts m" target blend_full] assms(5) by simp
  have one: "verts m' = target" if ex: "list_all2 exact_offset target (originalVerts m)"
  proof (rule nth_equalityI)
    show "length (verts m') = length target" using full assms(5) by simp
  next
    fix j assume "j < length (verts m')"
    then have j: "j < length target" using full assms(5) by simp
    then have "exact_offset (target ! j) (originalVerts m ! j)"
      using ex by (simp add: list_all2_conv_all_nth)
    then have "blend_full (originalVerts m ! j) (target ! j) = target ! j"
      by (rule blend_full_exact)
    then show "verts m' ! j = target ! j" using full j assms(5) by simp
  qed
  show ?thesis using zero m'(1) full one setBlendWeight_in_unit[OF assms(6)] by blast
qed

lemma example_floats:
  "is_float 0" "is_float (1 / 2)" "is_float (3 / 2)" "is_float (- 2)" "is_float (- 5)"
  "is_float (- 8)" "is_float (13421773 / 134217728)"
  using is_float_dyadic[of 0 0] is_float_dyadic[of 1 "- 1"] is_float_dyadic[of 3 "- 1"]
    is_float_dyadic[of "- 2" 0] is_float_dyadic[of "- 5" 0] is_float_dyadic[of "- 8" 0]
    is_float_dyadic[of 13421773 "- 27"]
  by simp_all

theorem blend_shape_weights_witness:
  "hasBackup (addBlendShape ''expand'' [Vec3f (3 / 2) 0 (- 5)] (loaded_model [Vec3f 1 2 3]))
   \<and> blendShapes (addBlendShape ''expand'' [Vec3f (3 / 2) 0 (- 5)] (loaded_model [Vec3f 1 2 3]))
       = [] @ (''expand'', [Vec3f (3 / 2) 0 (- 5)]) # []
   \<and> ''expand'' \<notin> fst ` set ([] @ ([] :: (string \<times> Vec3f list) list))
   \<and> weights_in_unit (addBlendShape ''expand'' [Vec3f (3 / 2) 0 (- 5)] (loaded_model [Vec3f 1 2 3]))
   \<and> list_all2 exact_offset [Vec3f (3 / 2) 0 (- 5)] [Vec3f 1 2 3]
   \<and> (\<exists>m'. applyBlendShapes (setBlendWeight ''expand'' 0
               (addBlendShape ''expand'' [Vec3f (3 / 2) 0 (- 5)] (loaded_model [Vec3f 1 2 3]))) = Some m'
            \<and> verts m' = [Vec3f 1 2 3])
   \<and> (\<exists>m'. applyBlendShapes (setBlendWeight ''expand'' 1
               (addBlendShape ''expand'' [Vec3f (3 / 2) 0 (- 5)] (loaded_model [Vec3f 1 2 3]))) = Some m'
            \<and> verts m' = [Vec3f (3 / 2) 0 (- 5)])
   \<and> weights_in_unit (setBlendWeight ''expand'' 7
               (addBlendShape ''expand'' [Vec3f (3 / 2) 0 (- 5)] (loaded_model [Vec3f 1 2 3])))"
proof -
  let ?t = "[Vec3f (3 / 2) 0 (- 5)]"
  let ?m = "addBlendShape ''expand'' ?t (loaded_model [Vec3f 1 2 3])"
  have h1: "hasBackup ?m"
    by (simp add: addBlendShape_def loaded_model_def backupOriginalVertices_def)
  have h2: "blendShapes ?m = [] @ (''expand'', ?t) # []"
    by (simp add: addBlendShape_def loaded_model_def backupOriginalVertices_def)
  have h3: "''expand'' \<notin> fst ` set ([] @ ([] :: (string \<times> Vec3f list) list))" by simp
  have h4: "list_all (\<lambda>(k, t). wt (blendWeights ?m) k = 0) ([] @ ([] :: (string \<times> Vec3f list) list))"
    by simp
  have h5: "length ?t = length (originalVerts ?m)"
    by (simp add: addBlendShape_def loaded_model_def backupOriginalVertices_def)
  have h6: "weights_in_unit ?m"
    by (simp add: weights_in_unit_def addBlendShape_def loaded_model_def backupOriginalVertices_def)
  have o: "originalVerts ?m = [Vec3f 1 2 3]"
    by (simp add: addBlendShape_def loaded_model_def backupOriginalVertices_def)
  have e: "list_all2 exact_offset ?t [Vec3f 1 2 3]"
    by (simp add: exact_offset_def example_floats)
  show ?thesis
    using blend_shape_weights[OF h1 h2 h3 h4 h5 h6, of "''expand''" 7] h1 h2 h3 h6 o e
    by (simp, blast)
qed

text \<open>
  With the original position \<open>(- 2, 0, 0)\<close> and the target \<open>(0.1f, 0, 0)\<close> the difference
  \<open>0.1f + 2\<close> is rounded, and the vertex stored at weight 1 is not the target.
\<close>

lemma tenth_blend: "blend_full (Vec3f (- 2) 0 0) (Vec3f (13421773 / 134217728) 0 0)
                    = Vec3f (209715 / 2097152) 0 0"
proof -
  have a: "fl (281857229 / 134217728) = 4404019 / 2097152"
    using fl_eval[of 1 "281857229 / 134217728"] by (simp add: round_even_def)
  have b: "fl (4404019 / 2097152) = 4404019 / 2097152"
    using fl_dyadic[of 4404019 "- 21"] by simp
  have c: "fl (209715 / 2097152) = 209715 / 2097152"
    using fl_dyadic[of 209715 "- 21"] by simp
  show ?thesis
    by (simp add: blend_full_def vadd_def vsub_def vscale_def fadd_def fsub_def fmul_def
        fl_zero a b c)
qed

theorem blend_weight_one_misses_target_counterexample:
  "is_float (- 2) \<and> is_float (13421773 / 134217728)
   \<and> map_option verts
       (applyBlendShapes (setBlendWeight ''expand'' 1
          (addBlendShape ''expand'' [Vec3f (13421773 / 134217728) 0 0]
             (loaded_model [Vec3f (- 2) 0 0]))))
     = Some [Vec3f (209715 / 2097152) 0 0]
   \<and> [Vec3f (209715 / 2097152) 0 0] \<noteq> [Vec3f (13421773 / 134217728) 0 0]"
proof -
  let ?t = "[Vec3f (13421773 / 134217728) 0 0]"
  let ?m = "addBlendShape ''expand'' ?t (loaded_model [Vec3f (- 2) 0 0])"
  let ?m1 = "setBlendWeight ''expand'' 1 ?m"
  have h1: "hasBackup ?m1"
    by (simp add: setBlendWeight_def addBlendShape_def loaded_model_def backupOriginalVertices_def)
  have h2: "blendShapes ?m1 = [] @ (''expand'', ?t) # []"
    by (simp add: setBlendWeight_def addBlendShape_def loaded_model_def backupOriginalVertices_def)
  have h3: "list_all (\<lambda>(k, t). wt (blendWeights ?m1) k = 0) ([] @ ([] :: (string \<times> Vec3f list) list))"
    by simp
  have o: "originalVerts ?m1 = [Vec3f (- 2) 0 0]"
    by (simp add: setBlendWeight_def addBlendShape_def loaded_model_def backupOriginalVertices_def)
  have w: "wt (blendWeights ?m1) ''expand'' = 1"
    by (simp add: setBlendWeight_def addBlendShape_def loaded_model_def backupOriginalVertices_def
        wt_alt)
  have h4: "length ?t = length (originalVerts ?m1)" by (simp add: o)
  obtain m' where m': "applyBlendShapes ?m1 = Some m'"
    "verts m' = [blend_full (Vec3f (- 2) 0 0) (Vec3f (13421773 / 134217728) 0 0)]"
    using applyBlendShapes_single[OF h1 h2 h3 h4] by (auto simp: o w blend_full_def)
  show ?thesis
    by (simp add: m' tenth_blend example_floats)
qed

text \<open>
  Claim C9. When \<^verbatim>\<open>addBlendShape\<close> is called with a target list whose size differs from
  the number of vertices of the model, the model is returned as it was: the blend-shape
  map, the blend-weight map, the vertex array and every other field are unchanged.
\<close>

theorem addBlendShape_mismatch:
  "length targetVertices \<noteq> length (verts m) \<Longrightarrow> addBlendShape shapeName targetVertices m = m"
  by (simp add: addBlendShape_def)

theorem addBlendShape_mismatch_witness:
  "length [Vec3f 1 1 1, Vec3f 2 2 2] \<noteq> length (verts (loaded_model [Vec3f 0 0 0]))
   \<and> addBlendShape ''squash'' [Vec3f 1 1 1, Vec3f 2 2 2] (loaded_model [Vec3f 0 0 0])
       = loaded_model [Vec3f 0 0 0]"
proof -
  have h: "length [Vec3f 1 1 1, Vec3f 2 2 2] \<noteq> length (verts (loaded_model [Vec3f 0 0 0]))"
    by (simp add: loaded_model_def backupOriginalVertices_def)
  show ?thesis using addBlendShape_mismatch[OF h, of "''squash''"] h by simp
qed

text \<open>
  Claim C10. \<^verbatim>\<open>setVertex\<close> and \<^verbatim>\<open>updateVertex\<close> never access the vertex array out of
  bounds (they never yield \<open>None\<close>), and for every index below 0 or at least the number of
  vertices they return the model unchanged.
\<close>

theorem vertex_access_checked:
  "setVertex i p m \<noteq> None \<and> updateVertex i off m \<noteq> None \<and>
   (i < 0 \<or> int (length (verts m)) \<le> i \<longrightarrow>
      setVertex i p m = Some m \<and> updateVertex i off m = Some m)"
  by (auto simp: setVertex_def updateVertex_def vec_get_def vec_set_def)

theorem vertex_access_checked_witness:
  "((-1::int) < 0 \<or> int (length (verts (loaded_model [Vec3f 0 0 0]))) \<le> -1)
   \<and> setVertex (-1) (Vec3f 9 9 9) (loaded_model [Vec3f 0 0 0]) = Some (loaded_model [Vec3f 0 0 0])
   \<and> updateVertex (-1) (Vec3f 9 9 9) (loaded_model [Vec3f 0 0 0]) = Some (loaded_model [Vec3f 0 0 0])
   \<and> ((1::int) < 0 \<or> int (length (verts (loaded_model [Vec3f 0 0 0]))) \<le> 1)
   \<and> setVertex 1 (Vec3f 9 9 9) (loaded_model [Vec3f 0 0 0]) = Some (loaded_model [Vec3f 0 0 0])
   \<and> updateVertex 1 (Vec3f 9 9 9) (loaded_model [Vec3f 0 0 0]) = Some (loaded_model [Vec3f 0 0 0])"
  using vertex_access_checked[of "-1" "Vec3f 9 9 9" "loaded_model [Vec3f 0 0 0]" "Vec3f 9 9 9"]
    vertex_access_checked[of 1 "Vec3f 9 9 9" "loaded_model [Vec3f 0 0 0]" "Vec3f 9 9 9"]
  by (simp add: loaded_model_def backupOriginalVertices_def)

section \<open>Properties of the scene graph\<close>

lemma removeChild_keeps: "addr (removeChild c q) = addr q \<and> name (removeChild c q) = name q
   \<and> parent (removeChild c q) = parent q"
  by (simp add: removeChild_def)

lemma at_node_keeps:
  assumes "at_node a f n = Some n'"
    and "\<And>q. addr (f q) = addr q \<and> name (f q) = name q \<and> parent (f q) = parent q"
  shows "addr n' = addr n \<and> name n' = name n \<and> parent n' = parent n"
  using assms by (cases n) (auto split: if_splits option.splits)

lemma deleteNode_root:
  "addr (rootNode (snd (deleteNode nodeName s))) = addr (rootNode s)
   \<and> name (rootNode (snd (deleteNode nodeName s))) = name (rootNode s)
   \<and> parent (rootNode (snd (deleteNode nodeName s))) = parent (rootNode s)"
proof (cases "\<exists>node pa r. nodeName \<noteq> ''Root'' \<and> findNode s nodeName = Some node \<and> parent node = Some pa
          \<and> at_node pa (removeChild nodeName) (rootNode s) = Some r")
  case True
  then obtain node pa r where h: "nodeName \<noteq> ''Root''" "findNode s nodeName = Some node"
    "parent node = Some pa" "at_node pa (removeChild nodeName) (rootNode s) = Some r" by blast
  from at_node_keeps[OF h(4)] removeChild_keeps
  have "addr r = addr (rootNode s) \<and> name r = name (rootNode s) \<and> parent r = parent (rootNode s)"
    by blast
  then show ?thesis using h by (simp add: deleteNode_def)
next
  case False
  then show ?thesis by (auto simp: deleteNode_def split: option.splits)
qed

lemma deleteNodes_root:
  "addr (rootNode (deleteNodes names s)) = addr (rootNode s)
   \<and> name (rootNode (deleteNodes names s)) = name (rootNode s)
   \<and> parent (rootNode (deleteNodes names s)) = parent (rootNode s)"
  unfolding deleteNodes_def
proof (induction names arbitrary: s)
  case Nil
  then show ?case by simp
next
  case (Cons n names)
  show ?case using Cons.IH[of "snd (deleteNode n s)"] deleteNode_root[of n s] by simp
qed

text \<open>
  Claim C8. \<^verbatim>\<open>deleteNode\<close> returns false and the scene unchanged (tree, selection and
  all) when the name is "Root" or no node has that name. A call that returns true found
  a node other than the root (the root is the one node without a parent). After any
  sequence of \<^verbatim>\<open>deleteNode\<close> calls the root node is the same node (same address), with
  the same name and still without a parent: a root named "Root" stays.
\<close>

theorem deleteNode_rejects:
  "(nodeName = ''Root'' \<or> findNode s nodeName = None \<longrightarrow> deleteNode nodeName s = (False, s))
   \<and> (parent (rootNode s) = None \<longrightarrow> fst (deleteNode nodeName s) \<longrightarrow>
        findNode s nodeName \<noteq> None \<and> findNode s nodeName \<noteq> Some (rootNode s))
   \<and> addr (rootNode (deleteNodes names s)) = addr (rootNode s)
   \<and> name (rootNode (deleteNodes names s)) = name (rootNode s)
   \<and> parent (rootNode (deleteNodes names s)) = parent (rootNode s)"
proof -
  have a: "nodeName = ''Root'' \<or> findNode s nodeName = None \<longrightarrow> deleteNode nodeName s = (False, s)"
    by (auto simp: deleteNode_def)
  have b: "parent (rootNode s) = None \<longrightarrow> fst (deleteNode nodeName s) \<longrightarrow>
        findNode s nodeName \<noteq> None \<and> findNode s nodeName \<noteq> Some (rootNode s)"
    by (auto simp: deleteNode_def split: option.splits if_splits)
  show ?thesis using a b deleteNodes_root[of names s] by blast
qed

theorem deleteNode_rejects_witness:
  "(''Root'' = ''Root'' \<or> findNode (createEmptyNode 1 ''Empty'' (new_Scene 0)) ''Root'' = None)
   \<and> deleteNode ''Root'' (createEmptyNode 1 ''Empty'' (new_Scene 0))
        = (False, createEmptyNode 1 ''Empty'' (new_Scene 0))
   \<and> findNode (createEmptyNode 1 ''Empty'' (new_Scene 0)) ''Ghost'' = None
   \<and> deleteNode ''Ghost'' (createEmptyNode 1 ''Empty'' (new_Scene 0))
        = (False, createEmptyNode 1 ''Empty'' (new_Scene 0))
   \<and> parent (rootNode (createEmptyNode 1 ''Empty'' (new_Scene 0))) = None
   \<and> fst (deleteNode ''Empty'' (createEmptyNode 1 ''Empty'' (new_Scene 0)))
   \<and> findNode (createEmptyNode 1 ''Empty'' (new_Scene 0)) ''Empty''
        \<noteq> Some (rootNode (createEmptyNode 1 ''Empty'' (new_Scene 0)))
   \<and> name (rootNode (deleteNodes [''Root'', ''Empty'', ''Root'', ''Empty'']
              (createEmptyNode 1 ''Empty'' (new_Scene 0)))) = ''Root''"
proof -
  let ?s = "createEmptyNode 1 ''Empty'' (new_Scene 0)"
  have g: "findNode ?s ''Ghost'' = None"
    by (simp add: createEmptyNode_def new_Scene_def addChild_def findNode_def)
  have p: "parent (rootNode ?s) = None"
    by (simp add: createEmptyNode_def new_Scene_def addChild_def)
  have d: "fst (deleteNode ''Empty'' ?s)"
    by (simp add: createEmptyNode_def new_Scene_def addChild_def deleteNode_def findNode_def)
  have n: "name (rootNode ?s) = ''Root''"
    by (simp add: createEmptyNode_def new_Scene_def addChild_def)
  show ?thesis
    using deleteNode_rejects[of "''Root''" ?s "[''Root'', ''Empty'', ''Root'', ''Empty'']"]
      deleteNode_rejects[of "''Ghost''" ?s "[]"]
      deleteNode_rejects[of "''Empty''" ?s "[]"] g p d n
    by simp
qed

section \<open>Properties of the tile scheduler\<close>

lemma div_mod_decomp:
  fixes q r b :: int
  assumes "0 < b" "0 \<le> r" "r < b"
  shows "(b * q + r) div b = q" "(b * q + r) mod b = r"
  using assms by (simp_all add: div_pos_pos_trivial)

lemma succ_mod_div:
  fixes a b :: int
  assumes "0 < b"
  shows "(a + 1) mod b = (if a mod b + 1 \<ge> b then 0 else a mod b + 1)"
    and "(a + 1) div b = (if a mod b + 1 \<ge> b then a div b + 1 else a div b)"
proof -
  define q r where "q = a div b" and "r = a mod b"
  have r: "0 \<le> r" "r < b" using assms by (simp_all add: r_def)
  have a: "a = b * q + r" by (simp add: q_def r_def)
  have "(a + 1) mod b = (if r + 1 \<ge> b then 0 else r + 1)
      \<and> (a + 1) div b = (if r + 1 \<ge> b then q + 1 else q)"
  proof (cases "r + 1 \<ge> b")
    case True
    then have "r + 1 = b" using r by simp
    then have e: "a + 1 = b * (q + 1) + 0" using a by (simp add: algebra_simps)
    have "(b * (q + 1) + 0) div b = q + 1" "(b * (q + 1) + 0) mod b = 0"
      using assms by (rule div_mod_decomp; simp)+
    then show ?thesis unfolding e using True by simp
  next
    case False
    have e: "a + 1 = b * q + (r + 1)" using a by simp
    have "(b * q + (r + 1)) div b = q" "(b * q + (r + 1)) mod b = r + 1"
      using assms by (rule div_mod_decomp; use False r in simp)+
    then show ?thesis unfolding e using False by simp
  qed
  then show "(a + 1) mod b = (if a mod b + 1 \<ge> b then 0 else a mod b + 1)"
    and "(a + 1) div b = (if a mod b + 1 \<ge> b then a div b + 1 else a div b)"
    by (simp_all add: q_def r_def)
qed

lemma render_one_tile_alt:
  "render_one_tile trace tile_time s =
     (if \<not> is_active s then s
      else (let s2 = update_performance_stats tile_time (tile_part trace s)
            in if adaptive_quality s2 then adjust_quality_based_on_performance s2 else s2))"
  by (simp add: render_one_tile_def tile_part_def Let_def)

lemma fold_row_written:
  "img_width (fold (\<lambda>px fb. image_set px py (tr px py) fb) xs fb) = img_width fb
   \<and> img_height (fold (\<lambda>px fb. image_set px py (tr px py) fb) xs fb) = img_height fb
   \<and> (\<forall>x y. (pixels (fold (\<lambda>px fb. image_set px py (tr px py) fb) xs fb) (x, y) \<noteq> None) =
        (pixels fb (x, y) \<noteq> None
         \<or> (y = py \<and> x \<in> set xs \<and> 0 \<le> x \<and> x < img_width fb \<and> 0 \<le> py \<and> py < img_height fb)))"
proof (induction xs arbitrary: fb)
  case Nil
  then show ?case by simp
next
  case (Cons a xs)
  have w: "img_width (image_set a py (tr a py) fb) = img_width fb"
    "img_height (image_set a py (tr a py) fb) = img_height fb"
    by (simp_all add: image_set_def)
  have p: "\<And>x y. (pixels (image_set a py (tr a py) fb) (x, y) \<noteq> None) =
      (pixels fb (x, y) \<noteq> None
       \<or> (y = py \<and> x = a \<and> 0 \<le> x \<and> x < img_width fb \<and> 0 \<le> py \<and> py < img_height fb))"
    by (auto simp: image_set_def)
  show ?case using Cons.IH[of "image_set a py (tr a py) fb"] w p by auto
qed

lemma fold_rows_written:
  "img_width (fold (\<lambda>py fb. fold (\<lambda>px fb'. image_set px py (tr px py) fb') xs fb) ys fb) = img_width fb
   \<and> img_height (fold (\<lambda>py fb. fold (\<lambda>px fb'. image_set px py (tr px py) fb') xs fb) ys fb) = img_height fb
   \<and> (\<forall>x y. (pixels (fold (\<lambda>py fb. fold (\<lambda>px fb'. image_set px py (tr px py) fb') xs fb) ys fb) (x, y) \<noteq> None) =
        (pixels fb (x, y) \<noteq> None
         \<or> (y \<in> set ys \<and> x \<in> set xs \<and> 0 \<le> x \<and> x < img_width fb \<and> 0 \<le> y \<and> y < img_height fb)))"
proof (induction ys arbitrary: fb)
  case Nil
  then show ?case by simp
next
  case (Cons a ys)
  let ?fb1 = "fold (\<lambda>px fb'. image_set px a (tr px a) fb') xs fb"
  note r = fold_row_written[of a tr xs fb]
  show ?case using Cons.IH[of ?fb1] r by auto
qed

lemma tile_grid_pos:
  assumes "tile_grid_ok s"
  shows "0 < total_tiles_x s" "0 < total_tiles_y s"
    "total_tiles_x s = (rt_width s + tile_size s - 1) div tile_size s"
    "total_tiles_y s = (rt_height s + tile_size s - 1) div tile_size s"
proof -
  have p: "0 < tile_size s" "0 < rt_width s" "0 < rt_height s"
    using assms by (simp_all add: tile_grid_ok_def)
  show x: "total_tiles_x s = (rt_width s + tile_size s - 1) div tile_size s"
    using assms p by (simp add: tile_grid_ok_def signed_divide_int_def)
  show y: "total_tiles_y s = (rt_height s + tile_size s - 1) div tile_size s"
    using assms p by (simp add: tile_grid_ok_def signed_divide_int_def)
  have "tile_size s \<le> rt_width s + tile_size s - 1" using p by simp
  then have "0 < (rt_width s + tile_size s - 1) div tile_size s"
    using p(1) pos_imp_zdiv_pos_iff by blast
  then show "0 < total_tiles_x s" using x by simp
  have "tile_size s \<le> rt_height s + tile_size s - 1" using p by simp
  then have "0 < (rt_height s + tile_size s - 1) div tile_size s"
    using p(1) pos_imp_zdiv_pos_iff by blast
  then show "0 < total_tiles_y s" using y by simp
qed



lemma div_eq_iff_range:
  fixes x c b :: int
  assumes "0 < b"
  shows "(x div b = c) = (c * b \<le> x \<and> x < c * b + b)"
proof
  assume h: "x div b = c"
  have "x = b * (x div b) + x mod b" by simp
  moreover have "0 \<le> x mod b" "x mod b < b" using assms by simp_all
  ultimately have "b * (x div b) \<le> x \<and> x < b * (x div b) + b" by linarith
  then show "c * b \<le> x \<and> x < c * b + b" using h by (simp add: mult.commute)
next
  assume h: "c * b \<le> x \<and> x < c * b + b"
  have e: "x = b * c + (x - c * b)" by (simp add: mult.commute)
  have "(b * c + (x - c * b)) div b = c"
    using assms by (rule div_mod_decomp; use h in simp)
  then show "x div b = c" using e by simp
qed



lemma ray_trace_tile_enhanced_eq:
  "ray_trace_tile_enhanced tr a b c d s =
     s\<lparr>rt_framebuffer :=
         fold (\<lambda>py fb. fold (\<lambda>px fb'. image_set px py (tr px py) fb') [a..c - 1] fb)
              [b..d - 1] (rt_framebuffer s)\<rparr>"
  by (simp add: ray_trace_tile_enhanced_def)

lemma update_progress_overlay_eq:
  "\<exists>ov. update_progress_overlay a b c d s = s\<lparr>progress_overlay := ov\<rparr>"
  unfolding update_progress_overlay_def Let_def by blast

lemma advance_tile_eq:
  "advance_tile s =
     s\<lparr>current_tile_x := (if current_tile_x s + 1 \<ge> total_tiles_x s then 0 else current_tile_x s + 1),
       current_tile_y :=
         (if current_tile_x s + 1 \<ge> total_tiles_x s
          then (if current_tile_y s + 1 \<ge> total_tiles_y s then 0 else current_tile_y s + 1)
          else current_tile_y s)\<rparr>"
  by (simp add: advance_tile_def Let_def)

lemma tile_part_eq:
  assumes "current_tile_y s < total_tiles_y s"
  shows "\<exists>ov. tile_part tr s =
     s\<lparr>rt_framebuffer :=
         fold (\<lambda>py fb. fold (\<lambda>px fb'. image_set px py (tr px py) fb')
                 [current_tile_x s * tile_size s..
                  min (current_tile_x s * tile_size s + tile_size s) (rt_width s) - 1] fb)
              [current_tile_y s * tile_size s..
               min (current_tile_y s * tile_size s + tile_size s) (rt_height s) - 1]
              (rt_framebuffer s),
       progress_overlay := ov,
       current_tile_x := (if current_tile_x s + 1 \<ge> total_tiles_x s then 0 else current_tile_x s + 1),
       current_tile_y :=
         (if current_tile_x s + 1 \<ge> total_tiles_x s
          then (if current_tile_y s + 1 \<ge> total_tiles_y s then 0 else current_tile_y s + 1)
          else current_tile_y s)\<rparr>"
proof -
  let ?sx = "current_tile_x s * tile_size s"
  let ?sy = "current_tile_y s * tile_size s"
  let ?ex = "min (?sx + tile_size s) (rt_width s)"
  let ?ey = "min (?sy + tile_size s) (rt_height s)"
  let ?sa = "ray_trace_tile_enhanced tr ?sx ?sy ?ex ?ey s"
  obtain ov where ov: "update_progress_overlay ?sx ?sy ?ex ?ey ?sa = ?sa\<lparr>progress_overlay := ov\<rparr>"
    using update_progress_overlay_eq by blast
  define ov' where "ov' = (if show_progress_overlay ?sa then ov else progress_overlay ?sa)"
  have sb: "(if show_progress_overlay ?sa then update_progress_overlay ?sx ?sy ?ex ?ey ?sa else ?sa)
            = ?sa\<lparr>progress_overlay := ov'\<rparr>"
    using ov by (simp add: ov'_def)
  have "tile_part tr s =
      advance_tile (if show_progress_overlay ?sa then update_progress_overlay ?sx ?sy ?ex ?ey ?sa else ?sa)"
    using assms by (simp only: tile_part_def Let_def if_True)
  then have tp: "tile_part tr s = advance_tile (?sa\<lparr>progress_overlay := ov'\<rparr>)"
    by (simp only: sb)
  have adv: "advance_tile (?sa\<lparr>progress_overlay := ov'\<rparr>) =
     s\<lparr>rt_framebuffer :=
         fold (\<lambda>py fb. fold (\<lambda>px fb'. image_set px py (tr px py) fb') [?sx..?ex - 1] fb)
              [?sy..?ey - 1] (rt_framebuffer s),
       progress_overlay := ov',
       current_tile_x := (if current_tile_x s + 1 \<ge> total_tiles_x s then 0 else current_tile_x s + 1),
       current_tile_y :=
         (if current_tile_x s + 1 \<ge> total_tiles_x s
          then (if current_tile_y s + 1 \<ge> total_tiles_y s then 0 else current_tile_y s + 1)
          else current_tile_y s)\<rparr>"
    by (simp add: advance_tile_eq ray_trace_tile_enhanced_eq)
  show ?thesis unfolding tp adv by (rule exI, rule refl)
qed

lemma tile_part_frame:
  "rt_width (tile_part tr s) = rt_width s \<and> rt_height (tile_part tr s) = rt_height s
   \<and> tile_size (tile_part tr s) = tile_size s
   \<and> total_tiles_x (tile_part tr s) = total_tiles_x s
   \<and> total_tiles_y (tile_part tr s) = total_tiles_y s
   \<and> is_active (tile_part tr s) = is_active s
   \<and> adaptive_quality (tile_part tr s) = adaptive_quality s
   \<and> quality_level (tile_part tr s) = quality_level s
   \<and> average_frame_time (tile_part tr s) = average_frame_time s
   \<and> performance_samples (tile_part tr s) = performance_samples s"
proof (cases "current_tile_y s < total_tiles_y s")
  case True
  from tile_part_eq[OF True, of tr] obtain ov where "tile_part tr s = s\<lparr>rt_framebuffer :=
         fold (\<lambda>py fb. fold (\<lambda>px fb'. image_set px py (tr px py) fb')
                 [current_tile_x s * tile_size s..
                  min (current_tile_x s * tile_size s + tile_size s) (rt_width s) - 1] fb)
              [current_tile_y s * tile_size s..
               min (current_tile_y s * tile_size s + tile_size s) (rt_height s) - 1]
              (rt_framebuffer s),
       progress_overlay := ov,
       current_tile_x := (if current_tile_x s + 1 \<ge> total_tiles_x s then 0 else current_tile_x s + 1),
       current_tile_y :=
         (if current_tile_x s + 1 \<ge> total_tiles_x s
          then (if current_tile_y s + 1 \<ge> total_tiles_y s then 0 else current_tile_y s + 1)
          else current_tile_y s)\<rparr>" by blast
  then show ?thesis by simp
next
  case False
  then show ?thesis by (simp add: tile_part_def)
qed

lemma tile_part_cursor:
  assumes "current_tile_y s < total_tiles_y s"
  shows "current_tile_x (tile_part tr s) =
           (if current_tile_x s + 1 \<ge> total_tiles_x s then 0 else current_tile_x s + 1)"
    and "current_tile_y (tile_part tr s) =
           (if current_tile_x s + 1 \<ge> total_tiles_x s
            then (if current_tile_y s + 1 \<ge> total_tiles_y s then 0 else current_tile_y s + 1)
            else current_tile_y s)"
  using tile_part_eq[OF assms, of tr] by auto

lemma tile_part_fb:
  assumes "current_tile_y s < total_tiles_y s"
  shows "rt_framebuffer (tile_part tr s) =
     fold (\<lambda>py fb. fold (\<lambda>px fb'. image_set px py (tr px py) fb')
             [current_tile_x s * tile_size s..
              min (current_tile_x s * tile_size s + tile_size s) (rt_width s) - 1] fb)
          [current_tile_y s * tile_size s..
           min (current_tile_y s * tile_size s + tile_size s) (rt_height s) - 1]
          (rt_framebuffer s)"
  using tile_part_eq[OF assms, of tr] by auto

lemma render_one_tile_step:
  assumes a: "is_active s" "\<not> adaptive_quality s" "tile_grid_ok s"
    and c: "current_tile_x s = j mod total_tiles_x s"
           "current_tile_y s = (j div total_tiles_x s) mod total_tiles_y s"
  shows "is_active (render_one_tile tr t s) \<and> \<not> adaptive_quality (render_one_tile tr t s)
     \<and> tile_grid_ok (render_one_tile tr t s)
     \<and> rt_width (render_one_tile tr t s) = rt_width s
     \<and> rt_height (render_one_tile tr t s) = rt_height s
     \<and> tile_size (render_one_tile tr t s) = tile_size s
     \<and> total_tiles_x (render_one_tile tr t s) = total_tiles_x s
     \<and> total_tiles_y (render_one_tile tr t s) = total_tiles_y s
     \<and> current_tile_x (render_one_tile tr t s) = (j + 1) mod total_tiles_x s
     \<and> current_tile_y (render_one_tile tr t s) = ((j + 1) div total_tiles_x s) mod total_tiles_y s
     \<and> (\<forall>px py. pixel_written (render_one_tile tr t s) px py =
          (pixel_written s px py
           \<or> (0 \<le> px \<and> px < rt_width s \<and> 0 \<le> py \<and> py < rt_height s
              \<and> px div tile_size s = current_tile_x s \<and> py div tile_size s = current_tile_y s)))"
proof -
  note pos = tile_grid_pos[OF a(3)]
  have ts: "0 < tile_size s" and dims: "img_width (rt_framebuffer s) = rt_width s"
    "img_height (rt_framebuffer s) = rt_height s"
    using a(3) by (simp_all add: tile_grid_ok_def)
  have cy: "current_tile_y s < total_tiles_y s" "0 \<le> current_tile_y s"
    using c(2) pos(2) by simp_all
  have cx: "current_tile_x s < total_tiles_x s" "0 \<le> current_tile_x s"
    using c(1) pos(1) by simp_all
  let ?p = "tile_part tr s"
  have r: "render_one_tile tr t s = update_performance_stats t ?p"
    using a(1,2) by (simp add: render_one_tile_alt Let_def update_performance_stats_def tile_part_frame)
  have f: "\<And>q. rt_width (update_performance_stats t q) = rt_width q
      \<and> rt_height (update_performance_stats t q) = rt_height q
      \<and> tile_size (update_performance_stats t q) = tile_size q
      \<and> total_tiles_x (update_performance_stats t q) = total_tiles_x q
      \<and> total_tiles_y (update_performance_stats t q) = total_tiles_y q
      \<and> is_active (update_performance_stats t q) = is_active q
      \<and> adaptive_quality (update_performance_stats t q) = adaptive_quality q
      \<and> current_tile_x (update_performance_stats t q) = current_tile_x q
      \<and> current_tile_y (update_performance_stats t q) = current_tile_y q
      \<and> rt_framebuffer (update_performance_stats t q) = rt_framebuffer q"
    by (simp add: update_performance_stats_def Let_def)
  note fb = tile_part_fb[OF cy(1), of tr]
  note rows = fold_rows_written[of tr
      "[current_tile_x s * tile_size s..min (current_tile_x s * tile_size s + tile_size s) (rt_width s) - 1]"
      "[current_tile_y s * tile_size s..min (current_tile_y s * tile_size s + tile_size s) (rt_height s) - 1]"
      "rt_framebuffer s"]
  have grid: "tile_grid_ok (render_one_tile tr t s)"
    using a(3) rows fb by (simp add: r f tile_part_frame tile_grid_ok_def)
  have curx: "current_tile_x (render_one_tile tr t s) = (j + 1) mod total_tiles_x s"
    using succ_mod_div(1)[OF pos(1), of j] c(1) by (simp add: r f tile_part_cursor[OF cy(1)])
  have cury: "current_tile_y (render_one_tile tr t s) = ((j + 1) div total_tiles_x s) mod total_tiles_y s"
    using succ_mod_div(2)[OF pos(1), of j] succ_mod_div(1)[OF pos(2), of "j div total_tiles_x s"] c
    by (simp add: r f tile_part_cursor[OF cy(1)])
  have wr: "\<And>px py. pixel_written (render_one_tile tr t s) px py =
          (pixel_written s px py
           \<or> (0 \<le> px \<and> px < rt_width s \<and> 0 \<le> py \<and> py < rt_height s
              \<and> px div tile_size s = current_tile_x s \<and> py div tile_size s = current_tile_y s))"
  proof -
    fix px py
    have "pixel_written (render_one_tile tr t s) px py =
        (pixel_written s px py
         \<or> (py \<in> {current_tile_y s * tile_size s..min (current_tile_y s * tile_size s + tile_size s) (rt_height s) - 1}
            \<and> px \<in> {current_tile_x s * tile_size s..min (current_tile_x s * tile_size s + tile_size s) (rt_width s) - 1}
            \<and> 0 \<le> px \<and> px < rt_width s \<and> 0 \<le> py \<and> py < rt_height s))"
      using rows fb dims by (simp add: pixel_written_def r f)
    also have "\<dots> = (pixel_written s px py
           \<or> (0 \<le> px \<and> px < rt_width s \<and> 0 \<le> py \<and> py < rt_height s
              \<and> px div tile_size s = current_tile_x s \<and> py div tile_size s = current_tile_y s))"
      using div_eq_iff_range[OF ts, of px "current_tile_x s"]
        div_eq_iff_range[OF ts, of py "current_tile_y s"]
      by auto
    finally show "pixel_written (render_one_tile tr t s) px py =
          (pixel_written s px py
           \<or> (0 \<le> px \<and> px < rt_width s \<and> 0 \<le> py \<and> py < rt_height s
              \<and> px div tile_size s = current_tile_x s \<and> py div tile_size s = current_tile_y s))" .
  qed
  show ?thesis using a(1,2) grid curx cury wr by (simp add: r f tile_part_frame)
qed


lemma pixel_tile_bound:
  fixes px w b :: int
  assumes "0 < b" "0 \<le> px" "px < w"
  shows "0 \<le> px div b" "px div b < (w + b - 1) div b"
proof -
  show "0 \<le> px div b" using assms by (simp add: pos_imp_zdiv_nonneg_iff)
  have "px div b \<le> (w - 1) div b" using assms by (intro zdiv_mono1) simp_all
  moreover have "(w + b - 1) div b = (w - 1) div b + 1"
  proof -
    have "w + b - 1 = (w - 1) + b" by simp
    then have "(w + b - 1) div b = ((w - 1) + b) div b" by (simp only:)
    also have "\<dots> = (w - 1) div b + 1" using assms(1) by simp
    finally show ?thesis by simp
  qed
  ultimately show "px div b < (w + b - 1) div b" by simp
qed

lemma render_tiles_sweep:
  assumes "is_active s" "\<not> adaptive_quality s" "tile_grid_ok s"
    and "current_tile_x s = j mod total_tiles_x s"
    and "current_tile_y s = (j div total_tiles_x s) mod total_tiles_y s"
    and "\<forall>px py. 0 \<le> px \<and> px < rt_width s \<and> 0 \<le> py \<and> py < rt_height s
           \<and> (py div tile_size s) * total_tiles_x s + px div tile_size s < j
         \<longrightarrow> pixel_written s px py"
  shows "current_tile_x (render_tiles tr ts s) = (j + int (length ts)) mod total_tiles_x s
     \<and> current_tile_y (render_tiles tr ts s)
         = ((j + int (length ts)) div total_tiles_x s) mod total_tiles_y s
     \<and> (\<forall>px py. 0 \<le> px \<and> px < rt_width s \<and> 0 \<le> py \<and> py < rt_height s
           \<and> (py div tile_size s) * total_tiles_x s + px div tile_size s < j + int (length ts)
         \<longrightarrow> pixel_written (render_tiles tr ts s) px py)"
  using assms
proof (induction ts arbitrary: s j)
  case Nil
  then show ?case by (simp add: render_tiles_def)
next
  case (Cons t ts)
  let ?s1 = "render_one_tile tr t s"
  note st = render_one_tile_step[OF Cons.prems(1,2,3,4,5), of tr t]
  note pos = tile_grid_pos[OF Cons.prems(3)]
  have ts: "0 < tile_size s" using Cons.prems(3) by (simp add: tile_grid_ok_def)
  have w1: "\<forall>px py. 0 \<le> px \<and> px < rt_width ?s1 \<and> 0 \<le> py \<and> py < rt_height ?s1
           \<and> (py div tile_size ?s1) * total_tiles_x ?s1 + px div tile_size ?s1 < j + 1
         \<longrightarrow> pixel_written ?s1 px py"
  proof (intro allI impI)
    fix px py
    assume h: "0 \<le> px \<and> px < rt_width ?s1 \<and> 0 \<le> py \<and> py < rt_height ?s1
           \<and> (py div tile_size ?s1) * total_tiles_x ?s1 + px div tile_size ?s1 < j + 1"
    then have b: "0 \<le> px" "px < rt_width s" "0 \<le> py" "py < rt_height s"
      and i: "(py div tile_size s) * total_tiles_x s + px div tile_size s < j + 1"
      using st by simp_all
    show "pixel_written ?s1 px py"
    proof (cases "(py div tile_size s) * total_tiles_x s + px div tile_size s < j")
      case True
      then have "pixel_written s px py" using Cons.prems(6) b by blast
      then show ?thesis using st by simp
    next
      case False
      then have e: "j = total_tiles_x s * (py div tile_size s) + px div tile_size s"
        using i by (simp add: mult.commute)
      have rx: "0 \<le> px div tile_size s" "px div tile_size s < total_tiles_x s"
        using pixel_tile_bound[OF ts b(1,2)] pos(3) by simp_all
      have ry: "0 \<le> py div tile_size s" "py div tile_size s < total_tiles_y s"
        using pixel_tile_bound[OF ts b(3,4)] pos(4) by simp_all
      have "j div total_tiles_x s = py div tile_size s" "j mod total_tiles_x s = px div tile_size s"
        unfolding e using pos(1) rx by (rule div_mod_decomp)+
      then have "px div tile_size s = current_tile_x s \<and> py div tile_size s = current_tile_y s"
        using Cons.prems(4,5) ry by simp
      then show ?thesis using st b by simp
    qed
  qed
  have ih: "current_tile_x (render_tiles tr ts ?s1) = (j + 1 + int (length ts)) mod total_tiles_x ?s1
     \<and> current_tile_y (render_tiles tr ts ?s1)
         = ((j + 1 + int (length ts)) div total_tiles_x ?s1) mod total_tiles_y ?s1
     \<and> (\<forall>px py. 0 \<le> px \<and> px < rt_width ?s1 \<and> 0 \<le> py \<and> py < rt_height ?s1
           \<and> (py div tile_size ?s1) * total_tiles_x ?s1 + px div tile_size ?s1 < j + 1 + int (length ts)
         \<longrightarrow> pixel_written (render_tiles tr ts ?s1) px py)"
    using st w1 by (intro Cons.IH) simp_all
  have r: "render_tiles tr (t # ts) s = render_tiles tr ts ?s1" by (simp add: render_tiles_def)
  have f: "rt_width ?s1 = rt_width s" "rt_height ?s1 = rt_height s" "tile_size ?s1 = tile_size s"
    "total_tiles_x ?s1 = total_tiles_x s" "total_tiles_y ?s1 = total_tiles_y s"
    using st by simp_all
  have l: "j + int (length (t # ts)) = j + 1 + int (length ts)" by simp
  show ?case unfolding r l using ih unfolding f by blast
qed

lemma tile_index_bounds:
  assumes "tile_grid_ok s" "0 \<le> px" "px < rt_width s" "0 \<le> py" "py < rt_height s"
  shows "0 \<le> (py div tile_size s) * total_tiles_x s + px div tile_size s"
    and "(py div tile_size s) * total_tiles_x s + px div tile_size s < total_tiles_x s * total_tiles_y s"
proof -
  note pos = tile_grid_pos[OF assms(1)]
  have ts: "0 < tile_size s" using assms(1) by (simp add: tile_grid_ok_def)
  have rx: "0 \<le> px div tile_size s" "px div tile_size s < total_tiles_x s"
    using pixel_tile_bound[OF ts assms(2,3)] pos(3) by simp_all
  have ry: "0 \<le> py div tile_size s" "py div tile_size s < total_tiles_y s"
    using pixel_tile_bound[OF ts assms(4,5)] pos(4) by simp_all
  have "0 \<le> (py div tile_size s) * total_tiles_x s" using ry(1) pos(1) by simp
  then show "0 \<le> (py div tile_size s) * total_tiles_x s + px div tile_size s" using rx(1) by simp
  have "(py div tile_size s) * total_tiles_x s \<le> (total_tiles_y s - 1) * total_tiles_x s"
    using ry(2) pos(1) by (intro mult_right_mono) simp_all
  then have "(py div tile_size s) * total_tiles_x s + px div tile_size s
      < (total_tiles_y s - 1) * total_tiles_x s + total_tiles_x s" using rx(2) by linarith
  also have "\<dots> = total_tiles_x s * total_tiles_y s" by (simp add: algebra_simps)
  finally show "(py div tile_size s) * total_tiles_x s + px div tile_size s
      < total_tiles_x s * total_tiles_y s" .
qed

text \<open>
  Claim C3, as amended. For an active tracer with adaptive quality off, a consistent
  tile grid and the tile cursor at (0,0): after \<open>k\<close> calls of \<^verbatim>\<open>render_one_tile\<close> (with
  any measured times) the cursor is at column \<open>k mod total_tiles_x\<close> and row
  \<open>(k div total_tiles_x) mod total_tiles_y\<close>, that is, it advances one tile per call in
  row-major order and wraps to (0,0) after the last tile; and after exactly
  \<open>total_tiles_x * total_tiles_y\<close> calls the cursor is back at (0,0) and every pixel
  \<open>(px, py)\<close> with \<open>0 \<le> px < rt_width\<close> and \<open>0 \<le> py < rt_height\<close> has been written.
\<close>

theorem tile_sweep_covers:
  assumes "is_active s" and "\<not> adaptive_quality s" and "tile_grid_ok s"
    and "current_tile_x s = 0" and "current_tile_y s = 0"
  shows "current_tile_x (render_tiles trace tile_times s) = int (length tile_times) mod total_tiles_x s
     \<and> current_tile_y (render_tiles trace tile_times s)
         = (int (length tile_times) div total_tiles_x s) mod total_tiles_y s
     \<and> (int (length tile_times) = total_tiles_x s * total_tiles_y s \<longrightarrow>
          current_tile_x (render_tiles trace tile_times s) = 0
          \<and> current_tile_y (render_tiles trace tile_times s) = 0
          \<and> (\<forall>px py. 0 \<le> px \<and> px < rt_width s \<and> 0 \<le> py \<and> py < rt_height s
                \<longrightarrow> pixel_written (render_tiles trace tile_times s) px py))"
proof -
  have w0: "\<forall>px py. 0 \<le> px \<and> px < rt_width s \<and> 0 \<le> py \<and> py < rt_height s
           \<and> (py div tile_size s) * total_tiles_x s + px div tile_size s < 0
         \<longrightarrow> pixel_written s px py"
    using tile_index_bounds(1)[OF assms(3)] by (meson not_less)
  have c: "current_tile_x s = 0 mod total_tiles_x s"
    "current_tile_y s = (0 div total_tiles_x s) mod total_tiles_y s"
    using assms(4,5) by simp_all
  note sw = render_tiles_sweep[OF assms(1,2,3) c w0, of trace tile_times]
  have cur: "current_tile_x (render_tiles trace tile_times s) = int (length tile_times) mod total_tiles_x s
     \<and> current_tile_y (render_tiles trace tile_times s)
         = (int (length tile_times) div total_tiles_x s) mod total_tiles_y s"
    using sw by simp
  have full: "int (length tile_times) = total_tiles_x s * total_tiles_y s \<Longrightarrow>
          current_tile_x (render_tiles trace tile_times s) = 0
          \<and> current_tile_y (render_tiles trace tile_times s) = 0
          \<and> (\<forall>px py. 0 \<le> px \<and> px < rt_width s \<and> 0 \<le> py \<and> py < rt_height s
                \<longrightarrow> pixel_written (render_tiles trace tile_times s) px py)"
  proof -
    assume n: "int (length tile_times) = total_tiles_x s * total_tiles_y s"
    note pos = tile_grid_pos[OF assms(3)]
    have "current_tile_x (render_tiles trace tile_times s) = 0" using cur n by simp
    moreover have "current_tile_y (render_tiles trace tile_times s) = 0" using cur n pos(1) by simp
    moreover have "\<forall>px py. 0 \<le> px \<and> px < rt_width s \<and> 0 \<le> py \<and> py < rt_height s
                \<longrightarrow> pixel_written (render_tiles trace tile_times s) px py"
      using sw tile_index_bounds(2)[OF assms(3)] n by simp
    ultimately show ?thesis by blast
  qed
  show ?thesis using cur full by blast
qed

lemma tracer_34_2:
  "is_active (toggle (new_RealtimeRayTracer 34 2))"
  "\<not> adaptive_quality (toggle (new_RealtimeRayTracer 34 2))"
  "tile_grid_ok (toggle (new_RealtimeRayTracer 34 2))"
  "current_tile_x (toggle (new_RealtimeRayTracer 34 2)) = 0"
  "current_tile_y (toggle (new_RealtimeRayTracer 34 2)) = 0"
  "total_tiles_x (toggle (new_RealtimeRayTracer 34 2)) = 2"
  "total_tiles_y (toggle (new_RealtimeRayTracer 34 2)) = 1"
  "rt_width (toggle (new_RealtimeRayTracer 34 2)) = 17"
  "rt_height (toggle (new_RealtimeRayTracer 34 2)) = 1"
  by (simp_all add: toggle_def new_RealtimeRayTracer_def update_quality_settings_def reset_tiles_def
      Let_def new_image_def image_clear_def signed_divide_int_def tile_grid_ok_def)

theorem tile_sweep_covers_witness:
  "is_active (toggle (new_RealtimeRayTracer 34 2))
   \<and> \<not> adaptive_quality (toggle (new_RealtimeRayTracer 34 2))
   \<and> tile_grid_ok (toggle (new_RealtimeRayTracer 34 2))
   \<and> current_tile_x (toggle (new_RealtimeRayTracer 34 2)) = 0
   \<and> current_tile_y (toggle (new_RealtimeRayTracer 34 2)) = 0
   \<and> int (length [3, 3 :: real]) =
        total_tiles_x (toggle (new_RealtimeRayTracer 34 2)) * total_tiles_y (toggle (new_RealtimeRayTracer 34 2))
   \<and> (0 \<le> (16::int) \<and> (16::int) < rt_width (toggle (new_RealtimeRayTracer 34 2))
        \<and> 0 \<le> (0::int) \<and> (0::int) < rt_height (toggle (new_RealtimeRayTracer 34 2)))
   \<and> pixel_written (render_tiles (\<lambda>px py. TGAColor 0 0 0) [3, 3] (toggle (new_RealtimeRayTracer 34 2))) 16 0
   \<and> current_tile_x (render_tiles (\<lambda>px py. TGAColor 0 0 0) [3, 3] (toggle (new_RealtimeRayTracer 34 2))) = 0
   \<and> current_tile_y (render_tiles (\<lambda>px py. TGAColor 0 0 0) [3, 3] (toggle (new_RealtimeRayTracer 34 2))) = 0
   \<and> current_tile_x (render_tiles (\<lambda>px py. TGAColor 0 0 0) [3] (toggle (new_RealtimeRayTracer 34 2))) = 1"
  using tile_sweep_covers[OF tracer_34_2(1,2,3,4,5), of "\<lambda>px py. TGAColor 0 0 0" "[3, 3]"]
    tile_sweep_covers[OF tracer_34_2(1,2,3,4,5), of "\<lambda>px py. TGAColor 0 0 0" "[3]"]
  by (simp add: tracer_34_2)

lemma tile_part_written:
  assumes "current_tile_y s < total_tiles_y s"
  shows "pixel_written (tile_part tr s) px py =
     (pixel_written s px py
      \<or> (py \<in> {current_tile_y s * tile_size s..
                 min (current_tile_y s * tile_size s + tile_size s) (rt_height s) - 1}
         \<and> px \<in> {current_tile_x s * tile_size s..
                    min (current_tile_x s * tile_size s + tile_size s) (rt_width s) - 1}
         \<and> 0 \<le> px \<and> px < img_width (rt_framebuffer s)
         \<and> 0 \<le> py \<and> py < img_height (rt_framebuffer s)))"
  using fold_rows_written[of tr
      "[current_tile_x s * tile_size s..min (current_tile_x s * tile_size s + tile_size s) (rt_width s) - 1]"
      "[current_tile_y s * tile_size s..min (current_tile_y s * tile_size s + tile_size s) (rt_height s) - 1]"
      "rt_framebuffer s"]
  by (simp add: pixel_written_def tile_part_fb[OF assms])

lemma tile_part_dims:
  "img_width (rt_framebuffer (tile_part tr s)) = img_width (rt_framebuffer s)
   \<and> img_height (rt_framebuffer (tile_part tr s)) = img_height (rt_framebuffer s)"
proof (cases "current_tile_y s < total_tiles_y s")
  case True
  show ?thesis
    using fold_rows_written[of tr
      "[current_tile_x s * tile_size s..min (current_tile_x s * tile_size s + tile_size s) (rt_width s) - 1]"
      "[current_tile_y s * tile_size s..min (current_tile_y s * tile_size s + tile_size s) (rt_height s) - 1]"
      "rt_framebuffer s"]
    by (simp add: tile_part_fb[OF True])
next
  case False
  then show ?thesis by (simp add: tile_part_def)
qed

lemma increase_quality_2:
  assumes "quality_level p = 2"
  shows "quality_level (increase_quality p) = 3" "tile_size (increase_quality p) = 8"
    "rt_width (increase_quality p) = rt_width p" "rt_height (increase_quality p) = rt_height p"
    "total_tiles_x (increase_quality p) = (rt_width p + 8 - 1) sdiv 8"
    "total_tiles_y (increase_quality p) = (rt_height p + 8 - 1) sdiv 8"
    "current_tile_x (increase_quality p) = 0" "current_tile_y (increase_quality p) = 0"
    "pixels (rt_framebuffer (increase_quality p)) = Map.empty"
    "img_width (rt_framebuffer (increase_quality p)) = img_width (rt_framebuffer p)"
    "img_height (rt_framebuffer (increase_quality p)) = img_height (rt_framebuffer p)"
    "is_active (increase_quality p) = is_active p"
    "adaptive_quality (increase_quality p) = adaptive_quality p"
    "average_frame_time (increase_quality p) = average_frame_time p"
    "performance_samples (increase_quality p) = performance_samples p"
  using assms
  by (simp_all add: increase_quality_def update_quality_settings_def reset_tiles_def Let_def
      image_clear_def)

lemma tracer_34_2_adaptive:
  "is_active (toggle_adaptive_quality (toggle (new_RealtimeRayTracer 34 2)))"
  "adaptive_quality (toggle_adaptive_quality (toggle (new_RealtimeRayTracer 34 2)))"
  "current_tile_x (toggle_adaptive_quality (toggle (new_RealtimeRayTracer 34 2))) = 0"
  "current_tile_y (toggle_adaptive_quality (toggle (new_RealtimeRayTracer 34 2))) = 0"
  "total_tiles_x (toggle_adaptive_quality (toggle (new_RealtimeRayTracer 34 2))) = 2"
  "total_tiles_y (toggle_adaptive_quality (toggle (new_RealtimeRayTracer 34 2))) = 1"
  "rt_width (toggle_adaptive_quality (toggle (new_RealtimeRayTracer 34 2))) = 17"
  "rt_height (toggle_adaptive_quality (toggle (new_RealtimeRayTracer 34 2))) = 1"
  "quality_level (toggle_adaptive_quality (toggle (new_RealtimeRayTracer 34 2))) = 2"
  "performance_samples (toggle_adaptive_quality (toggle (new_RealtimeRayTracer 34 2))) = 0"
  "img_width (rt_framebuffer (toggle_adaptive_quality (toggle (new_RealtimeRayTracer 34 2)))) = 17"
  "img_height (rt_framebuffer (toggle_adaptive_quality (toggle (new_RealtimeRayTracer 34 2)))) = 1"
  by (simp_all add: toggle_adaptive_quality_def toggle_def new_RealtimeRayTracer_def
      update_quality_settings_def reset_tiles_def
      Let_def new_image_def image_clear_def signed_divide_int_def)

text \<open>
  Without the condition on adaptive quality the claim fails. A tracer of resolution
  17 x 1 at level 2 (tile size 16, 2 x 1 tiles) with adaptive quality on renders its first
  tile in 0.1 ms: the average drops below half the target, the level rises to 3 (tile
  size 8, 3 x 1 tiles) and \<^verbatim>\<open>reset_tiles\<close> clears the buffer and the cursor. The second
  call renders the tile of columns 0..7. After these 2 = 2 x 1 calls pixel (16, 0) has
  not been written and the cursor is at (1, 0).
\<close>

theorem quality_change_restarts_sweep_counterexample:
  "is_active (toggle_adaptive_quality (toggle (new_RealtimeRayTracer 34 2)))
   \<and> current_tile_x (toggle_adaptive_quality (toggle (new_RealtimeRayTracer 34 2))) = 0
   \<and> current_tile_y (toggle_adaptive_quality (toggle (new_RealtimeRayTracer 34 2))) = 0
   \<and> total_tiles_x (toggle_adaptive_quality (toggle (new_RealtimeRayTracer 34 2)))
       * total_tiles_y (toggle_adaptive_quality (toggle (new_RealtimeRayTracer 34 2))) = 2
   \<and> rt_width (toggle_adaptive_quality (toggle (new_RealtimeRayTracer 34 2))) = 17
   \<and> rt_height (toggle_adaptive_quality (toggle (new_RealtimeRayTracer 34 2))) = 1
   \<and> \<not> pixel_written
         (render_tiles black_trace [1 / 10, 2]
            (toggle_adaptive_quality (toggle (new_RealtimeRayTracer 34 2)))) 16 0
   \<and> current_tile_x
         (render_tiles black_trace [1 / 10, 2]
            (toggle_adaptive_quality (toggle (new_RealtimeRayTracer 34 2)))) = 1"
proof -
  let ?s0 = "toggle_adaptive_quality (toggle (new_RealtimeRayTracer 34 2))"
  note s0 = tracer_34_2_adaptive
  let ?p1 = "update_performance_stats (1 / 10) (tile_part black_trace ?s0)"
  have p1: "quality_level ?p1 = 2" "average_frame_time ?p1 = 1 / 10" "performance_samples ?p1 = 1"
    "is_active ?p1" "adaptive_quality ?p1" "rt_width ?p1 = 17" "rt_height ?p1 = 1"
    "img_width (rt_framebuffer ?p1) = 17" "img_height (rt_framebuffer ?p1) = 1"
    using s0 by (simp_all add: update_performance_stats_def Let_def tile_part_frame tile_part_dims)
  let ?s1 = "render_one_tile black_trace (1 / 10) ?s0"
  have e1: "?s1 = increase_quality ?p1"
    using s0(1) p1
    by (simp add: render_one_tile_alt Let_def adjust_quality_based_on_performance_def
        target_tile_time_def)
  note iq = increase_quality_2[OF p1(1)]
  have s1: "is_active ?s1" "adaptive_quality ?s1" "quality_level ?s1 = 3" "tile_size ?s1 = 8"
    "rt_width ?s1 = 17" "rt_height ?s1 = 1" "total_tiles_x ?s1 = 3" "total_tiles_y ?s1 = 1"
    "current_tile_x ?s1 = 0" "current_tile_y ?s1 = 0"
    "average_frame_time ?s1 = 1 / 10" "performance_samples ?s1 = 1"
    "img_width (rt_framebuffer ?s1) = 17" "img_height (rt_framebuffer ?s1) = 1"
    unfolding e1 using iq p1 by (simp_all add: signed_divide_int_def)
  have w1: "\<not> pixel_written ?s1 16 0"
    unfolding e1 using iq(9) by (simp add: pixel_written_def)
  let ?p2 = "update_performance_stats 2 (tile_part black_trace ?s1)"
  have p2: "average_frame_time ?p2 = 21 / 20" "adaptive_quality ?p2"
    using s1 by (simp_all add: update_performance_stats_def Let_def tile_part_frame)
  let ?s2 = "render_one_tile black_trace 2 ?s1"
  have e2: "?s2 = ?p2"
    using s1(1) p2
    by (simp add: render_one_tile_alt Let_def adjust_quality_based_on_performance_def
        target_tile_time_def)
  have cy: "current_tile_y ?s1 < total_tiles_y ?s1" using s1 by simp
  have "pixel_written ?p2 16 0 = pixel_written (tile_part black_trace ?s1) 16 0"
    by (simp add: pixel_written_def update_performance_stats_def Let_def)
  moreover have "\<not> pixel_written (tile_part black_trace ?s1) 16 0"
    using tile_part_written[OF cy, of black_trace 16 0] w1 s1 by simp
  ultimately have w2: "\<not> pixel_written ?s2 16 0"
    unfolding e2 by simp
  have c2: "current_tile_x ?s2 = 1"
    unfolding e2 using s1 by (simp add: update_performance_stats_def Let_def tile_part_cursor[OF cy])
  have r: "render_tiles black_trace [1 / 10, 2] ?s0 = ?s2" by (simp add: render_tiles_def)
  show ?thesis unfolding r using s0 w2 c2 by simp
qed

section \<open>Properties of the adaptive-quality controller\<close>

lemma reset_tiles_ctrl:
  "quality_level (reset_tiles s) = quality_level s \<and> average_frame_time (reset_tiles s) = average_frame_time s
   \<and> performance_samples (reset_tiles s) = performance_samples s \<and> is_active (reset_tiles s) = is_active s
   \<and> adaptive_quality (reset_tiles s) = adaptive_quality s"
  by (simp add: reset_tiles_def Let_def)

lemma update_quality_settings_ctrl:
  "quality_level (update_quality_settings s) = quality_level s
   \<and> average_frame_time (update_quality_settings s) = average_frame_time s
   \<and> performance_samples (update_quality_settings s) = performance_samples s
   \<and> is_active (update_quality_settings s) = is_active s
   \<and> adaptive_quality (update_quality_settings s) = adaptive_quality s"
  by (simp add: update_quality_settings_def Let_def)

lemma adjust_ctrl:
  "quality_level (adjust_quality_based_on_performance s) =
     (if average_frame_time s > 4 \<and> quality_level s > 1 then quality_level s - 1
      else if average_frame_time s < 1 \<and> quality_level s < 4 then quality_level s + 1
      else quality_level s)
   \<and> average_frame_time (adjust_quality_based_on_performance s) = average_frame_time s
   \<and> performance_samples (adjust_quality_based_on_performance s) = performance_samples s
   \<and> is_active (adjust_quality_based_on_performance s) = is_active s
   \<and> adaptive_quality (adjust_quality_based_on_performance s) = adaptive_quality s"
  by (simp add: adjust_quality_based_on_performance_def target_tile_time_def increase_quality_def
      decrease_quality_def reset_tiles_ctrl update_quality_settings_ctrl)

lemma render_one_tile_ctrl:
  assumes "is_active s"
  shows "quality_level (render_one_tile trace t s) =
           (if adaptive_quality s
            then next_level (next_average (average_frame_time s) (performance_samples s) t) (quality_level s)
            else quality_level s)"
    and "average_frame_time (render_one_tile trace t s) =
           next_average (average_frame_time s) (performance_samples s) t"
    and "performance_samples (render_one_tile trace t s) = performance_samples s + 1"
    and "is_active (render_one_tile trace t s)"
    and "adaptive_quality (render_one_tile trace t s) = adaptive_quality s"
  using assms
  by (simp_all add: render_one_tile_alt Let_def update_performance_stats_def adjust_ctrl tile_part_frame
      next_level_def next_average_def)

lemma next_average_slow:
  assumes "0 \<le> n" "n = 0 \<or> avg > 4" "t > 4"
  shows "next_average avg n t > 4"
proof -
  let ?a = "1 / real_of_int (min 60 (n + 1))"
  have m: "1 \<le> min 60 (n + 1)" using assms(1) by simp
  then have a: "0 < ?a" "?a \<le> 1" by simp_all
  show ?thesis
  proof (cases "n = 0")
    case True
    then show ?thesis using assms(3) by (simp add: next_average_def)
  next
    case False
    then have "avg > 4" using assms(2) by simp
    then have "avg * (1 - ?a) \<ge> 4 * (1 - ?a)" using a by (intro mult_right_mono) simp_all
    moreover have "t * ?a > 4 * ?a" using assms(3) a by (intro mult_strict_right_mono) simp_all
    ultimately have "avg * (1 - ?a) + t * ?a > 4 * (1 - ?a) + 4 * ?a" by linarith
    then show ?thesis by (simp add: next_average_def algebra_simps)
  qed
qed

lemma next_average_fast:
  assumes "0 \<le> n" "n = 0 \<or> avg < 1" "t < 1"
  shows "next_average avg n t < 1"
proof -
  let ?a = "1 / real_of_int (min 60 (n + 1))"
  have m: "1 \<le> min 60 (n + 1)" using assms(1) by simp
  then have a: "0 < ?a" "?a \<le> 1" by simp_all
  show ?thesis
  proof (cases "n = 0")
    case True
    then show ?thesis using assms(3) by (simp add: next_average_def)
  next
    case False
    then have "avg < 1" using assms(2) by simp
    then have "avg * (1 - ?a) \<le> 1 * (1 - ?a)" using a by (intro mult_right_mono) simp_all
    moreover have "t * ?a < 1 * ?a" using assms(3) a by (intro mult_strict_right_mono) simp_all
    ultimately have "avg * (1 - ?a) + t * ?a < 1 * (1 - ?a) + 1 * ?a" by linarith
    then show ?thesis by (simp add: next_average_def algebra_simps)
  qed
qed

lemma render_tiles_flags:
  "is_active s \<Longrightarrow> is_active (render_tiles trace ts s)
     \<and> adaptive_quality (render_tiles trace ts s) = adaptive_quality s"
  unfolding render_tiles_def
  by (induction ts arbitrary: s) (simp_all add: render_one_tile_ctrl)

lemma render_tiles_range:
  "1 \<le> quality_level s \<Longrightarrow> quality_level s \<le> 4 \<Longrightarrow>
   1 \<le> quality_level (render_tiles trace ts s) \<and> quality_level (render_tiles trace ts s) \<le> 4"
  unfolding render_tiles_def
proof (induction ts arbitrary: s)
  case Nil
  then show ?case by simp
next
  case (Cons t ts)
  have "1 \<le> quality_level (render_one_tile trace t s) \<and> quality_level (render_one_tile trace t s) \<le> 4"
  proof (cases "is_active s")
    case True
    then show ?thesis using Cons.prems by (simp add: render_one_tile_ctrl next_level_def)
  next
    case False
    then show ?thesis using Cons.prems by (simp add: render_one_tile_def)
  qed
  then show ?case using Cons.IH[of "render_one_tile trace t s"] by simp
qed

lemma render_tiles_slow:
  assumes "is_active s" "adaptive_quality s" "0 \<le> performance_samples s"
    "performance_samples s = 0 \<or> average_frame_time s > 4"
    "list_all (\<lambda>t. t > 4) ts" "1 \<le> quality_level s"
  shows "quality_level (render_tiles trace ts s) = max 1 (quality_level s - int (length ts))"
  using assms unfolding render_tiles_def
proof (induction ts arbitrary: s)
  case Nil
  then show ?case by simp
next
  case (Cons t ts)
  let ?s' = "render_one_tile trace t s"
  have t: "t > 4" using Cons.prems(5) by simp
  have avg: "average_frame_time ?s' > 4"
    using next_average_slow[OF Cons.prems(3,4) t] Cons.prems(1) by (simp add: render_one_tile_ctrl)
  have q: "quality_level ?s' = max 1 (quality_level s - 1)"
    using next_average_slow[OF Cons.prems(3,4) t] Cons.prems(1,2,6)
    by (simp add: render_one_tile_ctrl next_level_def)
  have "quality_level (fold (render_one_tile trace) ts ?s') = max 1 (quality_level ?s' - int (length ts))"
    using Cons.prems avg q by (intro Cons.IH) (simp_all add: render_one_tile_ctrl)
  then show ?case using q by simp
qed

lemma render_tiles_fast:
  assumes "is_active s" "adaptive_quality s" "0 \<le> performance_samples s"
    "performance_samples s = 0 \<or> average_frame_time s < 1"
    "list_all (\<lambda>t. t < 1) ts" "quality_level s \<le> 4"
  shows "quality_level (render_tiles trace ts s) = min 4 (quality_level s + int (length ts))"
  using assms unfolding render_tiles_def
proof (induction ts arbitrary: s)
  case Nil
  then show ?case by simp
next
  case (Cons t ts)
  let ?s' = "render_one_tile trace t s"
  have t: "t < 1" using Cons.prems(5) by simp
  have avg: "average_frame_time ?s' < 1"
    using next_average_fast[OF Cons.prems(3,4) t] Cons.prems(1) by (simp add: render_one_tile_ctrl)
  have q: "quality_level ?s' = min 4 (quality_level s + 1)"
    using next_average_fast[OF Cons.prems(3,4) t] Cons.prems(1,2,6)
    by (simp add: render_one_tile_ctrl next_level_def)
  have "quality_level (fold (render_one_tile trace) ts ?s') = min 4 (quality_level ?s' + int (length ts))"
    using Cons.prems avg q by (intro Cons.IH) (simp_all add: render_one_tile_ctrl)
  then show ?case using q by simp
qed

text \<open>
  Claim C4, as amended. The level chosen by \<^verbatim>\<open>adjust_quality_based_on_performance\<close>
  goes down by one only when the moving average exceeds twice the 2 ms target, up by one
  only when it is below half the target, and is unchanged in between; the same holds for
  a whole \<^verbatim>\<open>render_one_tile\<close> call of an active tracer with adaptive quality on, with
  the average as updated by that call. A level in 1..4 stays in 1..4 over any sequence of
  calls. If no sample has been recorded yet or the moving average is already above twice
  the target, then tile times that are all above twice the target lower the level by one
  per call down to 1, where it stays (the equation holds for every prefix of the
  sequence, so the level never rises on the way); symmetrically, from no samples or an
  average below half the target, tile times all below half the target raise the level
  by one per call up to 4.
\<close>

theorem adaptive_quality_band:
  assumes "is_active s" and "adaptive_quality s"
    and "1 \<le> quality_level s" and "quality_level s \<le> 4" and "0 \<le> performance_samples s"
  shows "quality_level (adjust_quality_based_on_performance s) =
           (if average_frame_time s > 2 * target_tile_time \<and> quality_level s > 1
            then quality_level s - 1
            else if average_frame_time s < (1 / 2) * target_tile_time \<and> quality_level s < 4
            then quality_level s + 1
            else quality_level s)
       \<and> quality_level (render_one_tile trace t s) =
           (if average_frame_time (render_one_tile trace t s) > 2 * target_tile_time \<and> quality_level s > 1
            then quality_level s - 1
            else if average_frame_time (render_one_tile trace t s) < (1 / 2) * target_tile_time
                    \<and> quality_level s < 4
            then quality_level s + 1
            else quality_level s)
       \<and> 1 \<le> quality_level (render_tiles trace ts s) \<and> quality_level (render_tiles trace ts s) \<le> 4
       \<and> ((performance_samples s = 0 \<or> average_frame_time s > 2 * target_tile_time)
            \<and> list_all (\<lambda>t. t > 2 * target_tile_time) slow
          \<longrightarrow> quality_level (render_tiles trace slow s) = max 1 (quality_level s - int (length slow)))
       \<and> ((performance_samples s = 0 \<or> average_frame_time s < (1 / 2) * target_tile_time)
            \<and> list_all (\<lambda>t. t < (1 / 2) * target_tile_time) fast
          \<longrightarrow> quality_level (render_tiles trace fast s) = min 4 (quality_level s + int (length fast)))"
proof -
  have a: "quality_level (adjust_quality_based_on_performance s) =
           (if average_frame_time s > 2 * target_tile_time \<and> quality_level s > 1
            then quality_level s - 1
            else if average_frame_time s < (1 / 2) * target_tile_time \<and> quality_level s < 4
            then quality_level s + 1
            else quality_level s)"
    by (simp add: adjust_ctrl target_tile_time_def)
  have b: "quality_level (render_one_tile trace t s) =
           (if average_frame_time (render_one_tile trace t s) > 2 * target_tile_time \<and> quality_level s > 1
            then quality_level s - 1
            else if average_frame_time (render_one_tile trace t s) < (1 / 2) * target_tile_time
                    \<and> quality_level s < 4
            then quality_level s + 1
            else quality_level s)"
    using assms(1,2) by (simp add: render_one_tile_ctrl next_level_def target_tile_time_def)
  have c: "1 \<le> quality_level (render_tiles trace ts s) \<and> quality_level (render_tiles trace ts s) \<le> 4"
    using render_tiles_range[OF assms(3,4)] by simp
  have d: "(performance_samples s = 0 \<or> average_frame_time s > 2 * target_tile_time)
            \<and> list_all (\<lambda>t. t > 2 * target_tile_time) slow
          \<longrightarrow> quality_level (render_tiles trace slow s) = max 1 (quality_level s - int (length slow))"
    using render_tiles_slow[OF assms(1,2,5) _ _ assms(3), of slow trace]
    by (simp add: target_tile_time_def)
  have e: "(performance_samples s = 0 \<or> average_frame_time s < (1 / 2) * target_tile_time)
            \<and> list_all (\<lambda>t. t < (1 / 2) * target_tile_time) fast
          \<longrightarrow> quality_level (render_tiles trace fast s) = min 4 (quality_level s + int (length fast))"
    using render_tiles_fast[OF assms(1,2,5) _ _ assms(4), of fast trace]
    by (simp add: target_tile_time_def)
  show ?thesis using a b c d e by blast
qed

lemma fresh_tracer:
  "is_active (toggle_adaptive_quality (toggle (new_RealtimeRayTracer 2 2)))"
  "adaptive_quality (toggle_adaptive_quality (toggle (new_RealtimeRayTracer 2 2)))"
  "quality_level (toggle_adaptive_quality (toggle (new_RealtimeRayTracer 2 2))) = 2"
  "performance_samples (toggle_adaptive_quality (toggle (new_RealtimeRayTracer 2 2))) = 0"
  by (simp_all add: toggle_adaptive_quality_def toggle_def new_RealtimeRayTracer_def Let_def
      reset_tiles_ctrl update_quality_settings_ctrl)

theorem adaptive_quality_band_witness:
  "is_active (toggle_adaptive_quality (toggle (new_RealtimeRayTracer 2 2)))
   \<and> adaptive_quality (toggle_adaptive_quality (toggle (new_RealtimeRayTracer 2 2)))
   \<and> performance_samples (toggle_adaptive_quality (toggle (new_RealtimeRayTracer 2 2))) = 0
   \<and> list_all (\<lambda>t. t > 2 * target_tile_time) [5, 9, 5, 6 :: real]
   \<and> list_all (\<lambda>t. t < (1 / 2) * target_tile_time) [1 / 2, 1 / 4, 1 / 2 :: real]
   \<and> quality_level (render_tiles (\<lambda>px py. TGAColor 0 0 0) [5, 9, 5, 6]
        (toggle_adaptive_quality (toggle (new_RealtimeRayTracer 2 2)))) = 1
   \<and> quality_level (render_tiles (\<lambda>px py. TGAColor 0 0 0) [1 / 2, 1 / 4, 1 / 2]
        (toggle_adaptive_quality (toggle (new_RealtimeRayTracer 2 2)))) = 4"
proof -
  let ?s = "toggle_adaptive_quality (toggle (new_RealtimeRayTracer 2 2))"
  have h: "is_active ?s" "adaptive_quality ?s" "1 \<le> quality_level ?s" "quality_level ?s \<le> 4"
    "0 \<le> performance_samples ?s"
    by (simp_all add: fresh_tracer)
  show ?thesis
    using adaptive_quality_band[OF h, of "\<lambda>px py. TGAColor 0 0 0" 0 "[]" "[5, 9, 5, 6]" "[1 / 2, 1 / 4, 1 / 2]"]
    by (simp add: fresh_tracer target_tile_time_def)
qed

text \<open>
  The claim as stated, for every state of the controller, fails: after six fast tiles
  rendered with adaptive quality off (average 0.1 ms, level 2), adaptive quality is
  switched on and one slow tile of 5 ms is rendered. The average becomes 0.8 ms, still
  below half the target, and the level rises from 2 to 3 although the time fed is slow.
\<close>

theorem slow_time_raises_quality_counterexample:
  "quality_level (toggle_adaptive_quality
      (render_tiles black_trace [1 / 10, 1 / 10, 1 / 10, 1 / 10, 1 / 10, 1 / 10]
         (toggle (new_RealtimeRayTracer 2 2)))) = 2
   \<and> 5 > 2 * target_tile_time
   \<and> quality_level (render_one_tile black_trace 5
       (toggle_adaptive_quality
         (render_tiles black_trace [1 / 10, 1 / 10, 1 / 10, 1 / 10, 1 / 10, 1 / 10]
            (toggle (new_RealtimeRayTracer 2 2))))) = 3"
proof -
  let ?tr = "black_trace"
  let ?s0 = "toggle (new_RealtimeRayTracer 2 2)"
  have s0: "is_active ?s0" "\<not> adaptive_quality ?s0" "quality_level ?s0 = 2"
    "performance_samples ?s0 = 0"
    by (simp_all add: toggle_def new_RealtimeRayTracer_def Let_def
        reset_tiles_ctrl update_quality_settings_ctrl)
  have step: "\<And>s t. is_active s \<Longrightarrow> \<not> adaptive_quality s \<Longrightarrow>
      is_active (render_one_tile ?tr t s) \<and> \<not> adaptive_quality (render_one_tile ?tr t s)
      \<and> quality_level (render_one_tile ?tr t s) = quality_level s
      \<and> performance_samples (render_one_tile ?tr t s) = performance_samples s + 1
      \<and> average_frame_time (render_one_tile ?tr t s)
          = next_average (average_frame_time s) (performance_samples s) t"
    by (simp add: render_one_tile_ctrl)
  let ?s1 = "render_one_tile ?tr (1 / 10) ?s0"
  let ?s2 = "render_one_tile ?tr (1 / 10) ?s1"
  let ?s3 = "render_one_tile ?tr (1 / 10) ?s2"
  let ?s4 = "render_one_tile ?tr (1 / 10) ?s3"
  let ?s5 = "render_one_tile ?tr (1 / 10) ?s4"
  let ?s6 = "render_one_tile ?tr (1 / 10) ?s5"
  have s1: "is_active ?s1 \<and> \<not> adaptive_quality ?s1 \<and> quality_level ?s1 = 2
      \<and> performance_samples ?s1 = 1 \<and> average_frame_time ?s1 = 1 / 10"
    using step[OF s0(1,2), of "1 / 10"] s0 by (simp add: next_average_def)
  have s2: "is_active ?s2 \<and> \<not> adaptive_quality ?s2 \<and> quality_level ?s2 = 2
      \<and> performance_samples ?s2 = 2 \<and> average_frame_time ?s2 = 1 / 10"
    using step[of ?s1 "1 / 10"] s1 by (simp add: next_average_def)
  have s3: "is_active ?s3 \<and> \<not> adaptive_quality ?s3 \<and> quality_level ?s3 = 2
      \<and> performance_samples ?s3 = 3 \<and> average_frame_time ?s3 = 1 / 10"
    using step[of ?s2 "1 / 10"] s2 by (simp add: next_average_def)
  have s4: "is_active ?s4 \<and> \<not> adaptive_quality ?s4 \<and> quality_level ?s4 = 2
      \<and> performance_samples ?s4 = 4 \<and> average_frame_time ?s4 = 1 / 10"
    using step[of ?s3 "1 / 10"] s3 by (simp add: next_average_def)
  have s5: "is_active ?s5 \<and> \<not> adaptive_quality ?s5 \<and> quality_level ?s5 = 2
      \<and> performance_samples ?s5 = 5 \<and> average_frame_time ?s5 = 1 / 10"
    using step[of ?s4 "1 / 10"] s4 by (simp add: next_average_def)
  have s6: "is_active ?s6 \<and> \<not> adaptive_quality ?s6 \<and> quality_level ?s6 = 2
      \<and> performance_samples ?s6 = 6 \<and> average_frame_time ?s6 = 1 / 10"
    using step[of ?s5 "1 / 10"] s5 by (simp add: next_average_def)
  have r: "render_tiles ?tr [1 / 10, 1 / 10, 1 / 10, 1 / 10, 1 / 10, 1 / 10] ?s0 = ?s6"
    by (simp add: render_tiles_def)
  let ?s7 = "toggle_adaptive_quality ?s6"
  have s7: "is_active ?s7 \<and> adaptive_quality ?s7 \<and> quality_level ?s7 = 2
      \<and> performance_samples ?s7 = 6 \<and> average_frame_time ?s7 = 1 / 10"
    using s6 by (simp add: toggle_adaptive_quality_def)
  have "quality_level (render_one_tile ?tr 5 ?s7) = 3"
    using s7 by (simp add: render_one_tile_ctrl next_average_def next_level_def)
  then show ?thesis using s7 r by (simp add: target_tile_time_def)
qed

section \<open>Properties of the ray tracer core\<close>

lemma unit_triangle_eq:
  "unit_triangle m = rt_triangle (rt_vec3 0 0 0) (rt_vec3 1 0 0) (rt_vec3 0 1 0)
      (rt_vec3 1 0 0) (rt_vec3 0 1 0) (rt_vec3 0 0 1) m"
  by (simp add: unit_triangle_def new_triangle_def rt_sub_def cross_def unit_vector_def
      length_squared_def rt_div_def rt_scale_def)

lemma leaf_bvh_built: "new_rt_bvh [obj] = Some (leaf_bvh obj, [obj])"
  by (simp add: new_rt_bvh_def build_tree.simps leaf_bvh_def)

lemma unit_triangle_bounds:
  "compute_bounds (unit_triangle m) =
     \<lparr>bmin = rt_vec3 0 0 (- (1 / 2000000)), bmax = rt_vec3 1 1 (1 / 2000000)\<rparr>"
  by (simp add: unit_triangle_eq Let_def pad_axis_def)

lemma grazing_list_hit:
  "map_option rec_t (rt_hittable_list_hit [unit_triangle m] grazing_ray (1 / 1000) rt_infinity) = Some 1"
  by (simp add: rt_hittable_list_hit_def unit_triangle_eq grazing_ray_def Let_def cross_def dot_def
      rt_sub_def EPSILON_def set_face_normal_def)

lemma grazing_box_miss:
  "\<not> aabb_hit (compute_bounds (unit_triangle m)) grazing_ray (1 / 1000) rt_infinity"
  by (simp add: unit_triangle_bounds aabb_hit_def grazing_ray_def Let_def axis_def)

lemma grazing_bvh_miss:
  "rt_bvh_hit (leaf_bvh (unit_triangle m)) grazing_ray (1 / 1000) rt_infinity = None"
  using grazing_box_miss by (simp add: rt_bvh_hit_def leaf_bvh_def)

lemma inner_hit:
  "rt_bvh_hit (leaf_bvh (unit_triangle m)) inner_ray (1 / 1000) rt_infinity =
     Some \<lparr>rec_p = rt_vec3 (1 / 4) (1 / 4) 0, rec_normal = rt_vec3 0 0 1, rec_mat = m, rec_t = 1,
           rec_front_face = True\<rparr>"
proof -
  have b: "aabb_hit (compute_bounds (unit_triangle m)) inner_ray (1 / 1000) rt_infinity"
    by (simp add: unit_triangle_bounds aabb_hit_def inner_ray_def Let_def axis_def)
  have h: "hit (unit_triangle m) inner_ray (1 / 1000) rt_infinity =
     Some \<lparr>rec_p = rt_vec3 (1 / 4) (1 / 4) 0, rec_normal = rt_vec3 0 0 1, rec_mat = m, rec_t = 1,
           rec_front_face = True\<rparr>"
    by (simp add: unit_triangle_eq inner_ray_def Let_def cross_def dot_def rt_sub_def EPSILON_def
        set_face_normal_def empty_record_def ray_at_def rt_add_def rt_scale_def)
  show ?thesis using b h by (simp add: rt_bvh_hit_def leaf_bvh_def)
qed

lemma example_unit_vector:
  "random_unit_vector example_rng = Some (rt_vec3 (- 1) 0 0, sconst 0)"
  by (subst random_unit_vector.simps)
     (simp add: example_rng_def random_vec_def random_double_in_def random_double_def
        length_squared_def rt_div_def rt_scale_def)

lemma example_scatter:
  "example_material inner_ray (rt_vec3 (1 / 4) (1 / 4) 0) (rt_vec3 0 0 1) example_rng =
     Some (Some (rt_vec3 (7 / 10) (3 / 10) (3 / 10),
                 rt_ray (rt_vec3 (1 / 4) (1 / 4) 0) (rt_vec3 (- 1) 0 1)), sconst 0)"
  by (simp add: example_material_def rt_lambertian_def example_unit_vector Let_def rt_add_def
      near_zero_def)

text \<open>
  Claim C1 fails on the code. The object list holds the single triangle (0,0,0), (1,0,0),
  (0,1,0); the ray from (-1,1,1) with direction (1,-1,-1) meets it at its vertex (0,0,0),
  at distance 1, and the linear test over the list reports that hit. The bounding box
  of the triangle is entered in \<open>x\<close> at distance 1 and left in \<open>y\<close> at distance 1; the slab
  test of \<^verbatim>\<open>rt_aabb::hit\<close> rejects an interval with \<^verbatim>\<open>t_max <= t_min\<close>, so traversal of
  the tree that \<^verbatim>\<open>build_tree\<close> makes of the list reports no hit.
\<close>

theorem bvh_misses_grazing_hit:
  "new_rt_bvh [unit_triangle example_material]
     = Some (leaf_bvh (unit_triangle example_material), [unit_triangle example_material])
   \<and> rt_bvh_hit (leaf_bvh (unit_triangle example_material)) grazing_ray (1 / 1000) rt_infinity = None
   \<and> map_option rec_t
        (rt_hittable_list_hit [unit_triangle example_material] grazing_ray (1 / 1000) rt_infinity)
       = Some 1"
  using leaf_bvh_built grazing_bvh_miss grazing_list_hit by simp

text \<open>
  Claim C7 fails on the code for spheres. \<^verbatim>\<open>rt_sphere::hit\<close> has no guard for a
  degenerate sphere: for the sphere of radius 0 at (1,1,1) and the ray from the origin
  with direction (1,1,1) the discriminant is 0, the root 1 lies in the interval, and the
  test reports a hit at distance 1 at the centre (and then divides by the radius 0 for
  the normal).
\<close>

theorem zero_radius_sphere_is_hit:
  "map_option rec_t (hit point_sphere diagonal_ray (1 / 1000) rt_infinity) = Some 1
   \<and> map_option rec_p (hit point_sphere diagonal_ray (1 / 1000) rt_infinity) = Some (rt_vec3 1 1 1)"
  by (simp add: point_sphere_def diagonal_ray_def Let_def rt_sub_def length_squared_def dot_def
      set_face_normal_def ray_at_def rt_add_def rt_scale_def)

text \<open>
  Claim C6. \<^verbatim>\<open>ray_color\<close> returns black at once for a depth of 0 or less. For a positive
  depth it returns black when there is no BVH or \<^verbatim>\<open>rt_bvh::hit\<close> finds nothing in the
  interval from 0.001 to infinity; when there is a hit and the material of the hit record
  does not scatter, it returns black; when the material scatters, it returns the
  attenuation multiplied component by component with the colour of the scattered ray at
  depth - 1 (and does not return if that recursive call does not).
\<close>

theorem ray_color_cases:
  "(depth \<le> 0 \<longrightarrow> ray_color bvh_world r depth g = Some (rt_vec3 0 0 0, g))
   \<and> (0 < depth \<and> bvh_world = None \<longrightarrow> ray_color bvh_world r depth g = Some (rt_vec3 0 0 0, g))
   \<and> (0 < depth \<and> bvh_world = Some bvh \<and> rt_bvh_hit bvh r (1 / 1000) rt_infinity = None
        \<longrightarrow> ray_color bvh_world r depth g = Some (rt_vec3 0 0 0, g))
   \<and> (0 < depth \<and> bvh_world = Some bvh \<and> rt_bvh_hit bvh r (1 / 1000) rt_infinity = Some hr
        \<and> rec_mat hr r (rec_p hr) (rec_normal hr) g = Some (None, g')
        \<longrightarrow> ray_color bvh_world r depth g = Some (rt_vec3 0 0 0, g'))
   \<and> (0 < depth \<and> bvh_world = Some bvh \<and> rt_bvh_hit bvh r (1 / 1000) rt_infinity = Some hr
        \<and> rec_mat hr r (rec_p hr) (rec_normal hr) g = Some (Some (attenuation, scattered), g')
        \<longrightarrow> ray_color bvh_world r depth g =
              map_option (\<lambda>(c, g''). (rt_mul attenuation c, g''))
                (ray_color bvh_world scattered (depth - 1) g'))"
proof -
  have a: "depth \<le> 0 \<Longrightarrow> ray_color bvh_world r depth g = Some (rt_vec3 0 0 0, g)"
    by (subst ray_color.simps) simp
  have b: "0 < depth \<Longrightarrow> ray_color None r depth g = Some (rt_vec3 0 0 0, g)"
    by (subst ray_color.simps) simp
  have c: "0 < depth \<Longrightarrow> rt_bvh_hit bvh r (1 / 1000) rt_infinity = None
        \<Longrightarrow> ray_color (Some bvh) r depth g = Some (rt_vec3 0 0 0, g)"
    by (subst ray_color.simps) simp
  have d: "0 < depth \<Longrightarrow> rt_bvh_hit bvh r (1 / 1000) rt_infinity = Some hr
        \<Longrightarrow> rec_mat hr r (rec_p hr) (rec_normal hr) g = Some (None, g')
        \<Longrightarrow> ray_color (Some bvh) r depth g = Some (rt_vec3 0 0 0, g')"
    by (subst ray_color.simps) simp
  have e: "0 < depth \<Longrightarrow> rt_bvh_hit bvh r (1 / 1000) rt_infinity = Some hr
        \<Longrightarrow> rec_mat hr r (rec_p hr) (rec_normal hr) g = Some (Some (attenuation, scattered), g')
        \<Longrightarrow> ray_color (Some bvh) r depth g =
              map_option (\<lambda>(c, g''). (rt_mul attenuation c, g''))
                (ray_color (Some bvh) scattered (depth - 1) g')"
    by (subst ray_color.simps) (simp split: option.splits)
  show ?thesis using a b c d e by blast
qed

theorem ray_color_cases_witness:
  "ray_color (Some (leaf_bvh (unit_triangle example_material))) inner_ray 0 example_rng
     = Some (rt_vec3 0 0 0, example_rng)
   \<and> ray_color None inner_ray 3 example_rng = Some (rt_vec3 0 0 0, example_rng)
   \<and> rt_bvh_hit (leaf_bvh (unit_triangle example_material)) grazing_ray (1 / 1000) rt_infinity = None
   \<and> ray_color (Some (leaf_bvh (unit_triangle example_material))) grazing_ray 3 example_rng
     = Some (rt_vec3 0 0 0, example_rng)
   \<and> rt_bvh_hit (leaf_bvh (unit_triangle absorbing_material)) inner_ray (1 / 1000) rt_infinity =
       Some \<lparr>rec_p = rt_vec3 (1 / 4) (1 / 4) 0, rec_normal = rt_vec3 0 0 1,
             rec_mat = absorbing_material, rec_t = 1, rec_front_face = True\<rparr>
   \<and> absorbing_material inner_ray (rt_vec3 (1 / 4) (1 / 4) 0) (rt_vec3 0 0 1) example_rng
     = Some (None, example_rng)
   \<and> ray_color (Some (leaf_bvh (unit_triangle absorbing_material))) inner_ray 3 example_rng
     = Some (rt_vec3 0 0 0, example_rng)
   \<and> rt_bvh_hit (leaf_bvh (unit_triangle example_material)) inner_ray (1 / 1000) rt_infinity =
       Some \<lparr>rec_p = rt_vec3 (1 / 4) (1 / 4) 0, rec_normal = rt_vec3 0 0 1,
             rec_mat = example_material, rec_t = 1, rec_front_face = True\<rparr>
   \<and> example_material inner_ray (rt_vec3 (1 / 4) (1 / 4) 0) (rt_vec3 0 0 1) example_rng =
       Some (Some (rt_vec3 (7 / 10) (3 / 10) (3 / 10),
                   rt_ray (rt_vec3 (1 / 4) (1 / 4) 0) (rt_vec3 (- 1) 0 1)), sconst 0)
   \<and> ray_color (Some (leaf_bvh (unit_triangle example_material))) inner_ray 1 example_rng
     = Some (rt_vec3 0 0 0, sconst 0)"
proof -
  let ?hr = "\<lambda>m. \<lparr>rec_p = rt_vec3 (1 / 4) (1 / 4) 0, rec_normal = rt_vec3 0 0 1,
             rec_mat = m, rec_t = 1, rec_front_face = True\<rparr>"
  let ?be = "leaf_bvh (unit_triangle example_material)"
  let ?ba = "leaf_bvh (unit_triangle absorbing_material)"
  let ?sc = "rt_ray (rt_vec3 (1 / 4) (1 / 4) 0) (rt_vec3 (- 1) 0 1)"
  have ab: "absorbing_material inner_ray (rt_vec3 (1 / 4) (1 / 4) 0) (rt_vec3 0 0 1) example_rng
     = Some (None, example_rng)"
    by (simp add: absorbing_material_def)
  have w1: "ray_color (Some ?be) inner_ray 0 example_rng = Some (rt_vec3 0 0 0, example_rng)"
    using ray_color_cases[of 0 "Some ?be" inner_ray example_rng] by simp
  have w2: "ray_color None inner_ray 3 example_rng = Some (rt_vec3 0 0 0, example_rng)"
    using ray_color_cases[of 3 None inner_ray example_rng] by simp
  have w3: "ray_color (Some ?be) grazing_ray 3 example_rng = Some (rt_vec3 0 0 0, example_rng)"
    using ray_color_cases[of 3 "Some ?be" grazing_ray example_rng ?be] grazing_bvh_miss by simp
  have w4: "ray_color (Some ?ba) inner_ray 3 example_rng = Some (rt_vec3 0 0 0, example_rng)"
    using ray_color_cases[of 3 "Some ?ba" inner_ray example_rng ?ba "?hr absorbing_material" example_rng]
      inner_hit[of absorbing_material] ab by simp
  have w0: "ray_color (Some ?be) ?sc 0 (sconst 0) = Some (rt_vec3 0 0 0, sconst 0)"
    using ray_color_cases[of 0 "Some ?be" ?sc "sconst 0"] by simp
  have w5: "ray_color (Some ?be) inner_ray 1 example_rng = Some (rt_vec3 0 0 0, sconst 0)"
    using ray_color_cases[of 1 "Some ?be" inner_ray example_rng ?be "?hr example_material" "sconst 0"
        "rt_vec3 (7 / 10) (3 / 10) (3 / 10)" ?sc]
      inner_hit[of example_material] example_scatter w0
    by (simp add: rt_mul_def)
  show ?thesis
    using w1 w2 w3 w4 w5 ab grazing_bvh_miss inner_hit[of absorbing_material]
      inner_hit[of example_material] example_scatter
    by simp
qed

text \<open>
  A consequence: every path of \<^verbatim>\<open>ray_color\<close> ends in black and there is no emission, so
  the colour it returns is black whenever it returns.
\<close>

lemma ray_color_black:
  "ray_color bvh_world r depth g = Some (c, g') \<Longrightarrow> c = rt_vec3 0 0 0"
proof (induction bvh_world r depth g arbitrary: c g' rule: ray_color.induct)
  case (1 bvh_world r depth g)
  note u = ray_color.simps[of bvh_world r depth g]
  show ?case
  proof (cases "depth \<le> 0")
    case True
    then show ?thesis using "1.prems" u by simp
  next
    case False
    let ?h = "case bvh_world of None \<Rightarrow> None | Some bvh \<Rightarrow> rt_bvh_hit bvh r (1 / 1000) rt_infinity"
    show ?thesis
    proof (cases ?h)
      case None
      then show ?thesis using "1.prems" False u by simp
    next
      case (Some hr)
      show ?thesis
      proof (cases "rec_mat hr r (rec_p hr) (rec_normal hr) g")
        case None
        then show ?thesis using "1.prems" False Some u by simp
      next
        case sc: (Some res)
        obtain o1 g1 where res: "res = (o1, g1)" by (cases res)
        show ?thesis
        proof (cases o1)
          case None
          then show ?thesis using "1.prems" False Some sc res u by simp
        next
          case as: (Some a)
          obtain att scattered where a: "a = (att, scattered)" by (cases a)
          have "ray_color bvh_world r depth g =
              (case ray_color bvh_world scattered (depth - 1) g1 of
                 None \<Rightarrow> None | Some (c, g'') \<Rightarrow> Some (rt_mul att c, g''))"
            using False Some sc res as a u by simp
          then obtain c1 where rc: "ray_color bvh_world scattered (depth - 1) g1 = Some (c1, g')"
            and c: "c = rt_mul att c1"
            using "1.prems" by (auto split: option.splits)
          have "c1 = rt_vec3 0 0 0"
            using "1.IH"[OF False Some _ _ _ _ rc] sc res as a by simp
          then show ?thesis using c by (simp add: rt_mul_def)
        qed
      qed
    qed
  qed
qed

text \<open>
  The triangle test has the guard the sphere test lacks: a ray parallel to the triangle
  (determinant within \<open>EPSILON\<close> of 0) is rejected before \<^verbatim>\<open>1.0 / a\<close> is computed,
  and so is every ray at a triangle of zero area, whose determinant is 0.
\<close>

lemma triangle_parallel_no_hit:
  assumes "\<bar>dot edge1 (cross (direction r) edge2)\<bar> < EPSILON"
  shows "hit (rt_triangle v0 v1 v2 edge1 edge2 nrm m) r t_min t_max = None"
  using assms by (simp add: Let_def abs_less_iff)

lemma triple_product: "dot a (cross d b) = - dot d (cross a b)"
  by (simp add: dot_def cross_def algebra_simps)

lemma zero_area_triangle_no_hit:
  assumes "cross (rt_sub v1 v0) (rt_sub v2 v0) = rt_vec3 0 0 0"
  shows "hit (new_triangle v0 v1 v2 m) r t_min t_max = None"
proof -
  have "dot (rt_sub v1 v0) (cross (direction r) (rt_sub v2 v0)) = 0"
    unfolding triple_product assms by (simp add: dot_def)
  then show ?thesis
    unfolding new_triangle_def by (intro triangle_parallel_no_hit) (simp add: EPSILON_def)
qed

section \<open>Properties of the shadow-mapping shader\<close>

lemma shader_constants:
  "fl (3 / 10) = 5033165 / 16777216"
  "fl (7 / 10) = 11744051 / 16777216"
  "fl (4 / 5) = 13421773 / 16777216"
  "fl (2167 / 50) = 11361321 / 262144"
  "fl (5033165 / 16777216) = 5033165 / 16777216"
  "fl (11744051 / 16777216) = 11744051 / 16777216"
  "fl (13421773 / 16777216) = 13421773 / 16777216"
  "fl (11361321 / 262144) = 11361321 / 262144"
  "fl 1 = 1"
  using fl_eval[of "- 2" "3 / 10"]
    fl_eval[of "- 1" "7 / 10"]
    fl_eval[of "- 1" "4 / 5"]
    fl_eval[of "5" "2167 / 50"]
    fl_dyadic[of "5033165" "- 24"]
    fl_dyadic[of "11744051" "- 24"]
    fl_dyadic[of "13421773" "- 24"]
    fl_dyadic[of "11361321" "- 18"]
    fl_dyadic[of "1" "0"]
  by (simp_all add: round_even_def)



lemma shading_rounds:
  "fl 100 = 100"
  "fl (201326595 / 268435456) = 3 / 4"
  "fl (5033165 / 16777216) = 5033165 / 16777216"
  "fl (17616077 / 16777216) = 4404019 / 4194304"
  "fl (110100475 / 1048576) = 13762559 / 131072"
  "fl (16383999 / 131072) = 16383999 / 131072"
  using fl_dyadic[of "25" "2"]
    fl_eval[of "- 1" "201326595 / 268435456"]
    fl_dyadic[of "5033165" "- 24"]
    fl_eval[of "0" "17616077 / 16777216"]
    fl_eval[of "6" "110100475 / 1048576"]
    fl_dyadic[of "16383999" "- 17"]
  by (simp_all add: round_even_def)











text \<open>
  The colour formula rounds: with the texel 100, \<open>diff = 15 / 16\<close> and \<open>spec = 1\<close> the
  channel is 124, where the exact value of the expression is 125.
\<close>

lemma shade_channel_rounds: "shade_channel 100 1 (15 / 16) 1 = 124"
  by (simp add: shade_channel_def fadd_def fmul_def shader_constants shading_rounds trunc_int_def)



end
